theory Spec2Isabelle
  imports Complex_Main
begin

section \<open>Embedding vectors and the quality validator\<close>

text \<open>
  Source: \<^verbatim>\<open>backend/python/services/embedding_generator.py\<close>.

  An embedding is a one-dimensional \<^verbatim>\<open>np.ndarray\<close> of floats. The validator tests its
  components for NaN and for infinity, so a component is either a finite value or one of the
  three special values. Finite values are idealised as reals: rounding and overflow of the
  double format are not part of the model.
\<close>

datatype EmbeddingModel = GEMINI | OPENAI | SENTENCE_TRANSFORMER | HUGGINGFACE | LOCAL

datatype fl = Fin real | PInf | NInf | NaN

type_synonym ndarray = "fl list"

type_synonym exn = string

fun isnan :: "fl \<Rightarrow> bool" where
  "isnan NaN = True"
| "isnan _ = False"

fun isinf :: "fl \<Rightarrow> bool" where
  "isinf PInf = True"
| "isinf NInf = True"
| "isinf _ = False"


fun fin_val :: "fl \<Rightarrow> real" where
  "fin_val (Fin r) = r"
| "fin_val _ = 0"

text \<open>The comparison \<^verbatim>\<open><\<close> of floats: every comparison with NaN is false.\<close>

fun fl_less :: "fl \<Rightarrow> fl \<Rightarrow> bool" where
  "fl_less NaN _ = False"
| "fl_less _ NaN = False"
| "fl_less (Fin a) (Fin b) = (a < b)"
| "fl_less (Fin _) PInf = True"
| "fl_less (Fin _) NInf = False"
| "fl_less PInf _ = False"
| "fl_less NInf NInf = False"
| "fl_less NInf _ = True"

definition sum_sq :: "real list \<Rightarrow> real" where
  "sum_sq xs = sum_list (map (\<lambda>x. x * x) xs)"

text \<open>
  \<^verbatim>\<open>np.linalg.norm\<close>: the square root of the sum of squares. A NaN component makes the
  sum NaN; otherwise an infinite component makes it infinite.
\<close>

definition linalg_norm :: "ndarray \<Rightarrow> fl" where
  "linalg_norm e =
     (if list_ex isnan e then NaN
      else if list_ex isinf e then PInf
      else Fin (sqrt (sum_sq (map fin_val e))))"

definition np_mean :: "real list \<Rightarrow> real" where
  "np_mean xs = sum_list xs / real (length xs)"

text \<open>
  \<^verbatim>\<open>np.var\<close>: the mean of the squared deviations from the mean. It is NaN for the empty
  array (a mean over no elements), for a NaN component, and for an infinite component (the
  deviation of an infinite component from an infinite mean is NaN).
\<close>

definition np_var :: "ndarray \<Rightarrow> fl" where
  "np_var e =
     (if e = [] then NaN
      else if list_ex isnan e then NaN
      else if list_ex isinf e then NaN
      else (let xs = map fin_val e; mu = np_mean xs
            in Fin (np_mean (map (\<lambda>x. (x - mu) * (x - mu)) xs))))"

text \<open>\<^verbatim>\<open>EmbeddingQualityValidator._get_expected_dimensions\<close>, with the default 768.\<close>

definition get_expected_dimensions :: "EmbeddingModel \<Rightarrow> nat" where
  "get_expected_dimensions model =
     (case model of
        GEMINI \<Rightarrow> 1536
      | OPENAI \<Rightarrow> 3072
      | SENTENCE_TRANSFORMER \<Rightarrow> 384
      | HUGGINGFACE \<Rightarrow> 768
      | _ \<Rightarrow> 768)"

text \<open>
  \<^verbatim>\<open>EmbeddingQualityValidator.validate_embedding\<close>. The score is accumulated check by
  check, as in the source. No operation of the body raises on a one-dimensional array, so
  the handler that returns 0.0 is never entered.
\<close>

definition validate_embedding :: "ndarray \<Rightarrow> string \<Rightarrow> EmbeddingModel \<Rightarrow> real" where
  "validate_embedding embedding original_text model =
     (let quality_score = 0;
          expected_dims = get_expected_dimensions model;
          quality_score = (if length embedding = expected_dims
                           then quality_score + 0.3 else quality_score);
          quality_score = (if \<not> list_ex isnan embedding \<and> \<not> list_ex isinf embedding
                           then quality_score + 0.2 else quality_score);
          magnitude = linalg_norm embedding;
          quality_score = (if fl_less (Fin 0.1) magnitude \<and> fl_less magnitude (Fin 10.0)
                           then quality_score + 0.2 else quality_score);
          variance = np_var embedding;
          quality_score = (if fl_less (Fin 0.001) variance
                           then quality_score + 0.15 else quality_score);
          quality_score = (if length original_text > 10
                           then quality_score + 0.15 else quality_score)
      in min quality_score 1.0)"

section \<open>The embedding optimizer\<close>

text \<open>
  \<^verbatim>\<open>EmbeddingOptimizer\<close>, on arrays of dtype \<^verbatim>\<open>float64\<close>. Whether a vector is scaled
  depends on the computed norm, so the range of the doubles is part of the model here.
  \<^verbatim>\<open>float64 x\<close> is the result of an operation whose exact value is the real \<^verbatim>\<open>x\<close>: an
  infinity when the magnitude of \<^verbatim>\<open>x\<close> reaches \<^verbatim>\<open>(2 - 2^-53) * 2^1023\<close>, where
  rounding to nearest leaves the range, zero when it is at most \<^verbatim>\<open>2^-1075\<close>, half the
  least positive double, and \<^verbatim>\<open>x\<close> itself in between: the rounding to 53 significant
  bits is not modelled. The operations treat NaN and the infinities as IEEE 754 does. The
  sign of a zero is not modelled; a zero divisor counts as +0, which is what a norm or a
  standard deviation is when it is zero.
\<close>

definition float64_overflow :: real where
  "float64_overflow = (2 - 1 / 2 ^ 53) * 2 ^ 1023"

definition float64_underflow :: real where
  "float64_underflow = 1 / 2 ^ 1075"

definition float64 :: "real \<Rightarrow> fl" where
  "float64 x =
     (if float64_overflow \<le> x then PInf
      else if x \<le> - float64_overflow then NInf
      else if \<bar>x\<bar> \<le> float64_underflow then Fin 0
      else Fin x)"


fun fl_add :: "fl \<Rightarrow> fl \<Rightarrow> fl" where
  "fl_add NaN _ = NaN"
| "fl_add _ NaN = NaN"
| "fl_add (Fin a) (Fin b) = float64 (a + b)"
| "fl_add PInf NInf = NaN"
| "fl_add NInf PInf = NaN"
| "fl_add PInf _ = PInf"
| "fl_add _ PInf = PInf"
| "fl_add NInf _ = NInf"
| "fl_add _ NInf = NInf"


fun fl_mul :: "fl \<Rightarrow> fl \<Rightarrow> fl" where
  "fl_mul NaN _ = NaN"
| "fl_mul _ NaN = NaN"
| "fl_mul (Fin a) (Fin b) = float64 (a * b)"
| "fl_mul (Fin a) PInf = (if a = 0 then NaN else if 0 < a then PInf else NInf)"
| "fl_mul (Fin a) NInf = (if a = 0 then NaN else if 0 < a then NInf else PInf)"
| "fl_mul PInf (Fin b) = (if b = 0 then NaN else if 0 < b then PInf else NInf)"
| "fl_mul NInf (Fin b) = (if b = 0 then NaN else if 0 < b then NInf else PInf)"
| "fl_mul PInf PInf = PInf"
| "fl_mul PInf NInf = NInf"
| "fl_mul NInf PInf = NInf"
| "fl_mul NInf NInf = PInf"

fun fl_div :: "fl \<Rightarrow> fl \<Rightarrow> fl" where
  "fl_div NaN _ = NaN"
| "fl_div _ NaN = NaN"
| "fl_div (Fin a) (Fin b) =
     (if b = 0 then (if a = 0 then NaN else if 0 < a then PInf else NInf)
      else float64 (a / b))"
| "fl_div (Fin a) PInf = Fin 0"
| "fl_div (Fin a) NInf = Fin 0"
| "fl_div PInf (Fin b) = (if 0 \<le> b then PInf else NInf)"
| "fl_div NInf (Fin b) = (if 0 \<le> b then NInf else PInf)"
| "fl_div PInf PInf = NaN"
| "fl_div PInf NInf = NaN"
| "fl_div NInf PInf = NaN"
| "fl_div NInf NInf = NaN"

fun fl_sqrt :: "fl \<Rightarrow> fl" where
  "fl_sqrt NaN = NaN"
| "fl_sqrt PInf = PInf"
| "fl_sqrt NInf = NaN"
| "fl_sqrt (Fin a) = (if a < 0 then NaN else float64 (sqrt a))"

text \<open>
  \<^verbatim>\<open>np.linalg.norm\<close> of a one-dimensional real array is \<^verbatim>\<open>sqrt(x.dot(x))\<close>: the squares
  and their sum are computed in doubles, with no scaling against overflow or underflow.
  \<^verbatim>\<open>_normalize_embedding\<close> divides by the norm when it compares greater than zero, which
  is false of a zero and of a NaN norm and true of an infinite one.
\<close>

definition fl_sum :: "ndarray \<Rightarrow> fl" where
  "fl_sum xs = foldl fl_add (Fin 0) xs"

definition linalg_norm_float64 :: "ndarray \<Rightarrow> fl" where
  "linalg_norm_float64 x = fl_sqrt (fl_sum (map (\<lambda>c. fl_mul c c) x))"

definition normalize_embedding :: "ndarray \<Rightarrow> ndarray" where
  "normalize_embedding embedding =
     (let norm = linalg_norm_float64 embedding
      in if fl_less (Fin 0) norm then map (\<lambda>c. fl_div c norm) embedding else embedding)"









section \<open>Similarity\<close>

text \<open>
  \<^verbatim>\<open>EmbeddingGenerator.calculate_similarity\<close>. The library calls raise on shapes that do
  not fit: \<^verbatim>\<open>cosine_similarity\<close> on vectors of different or zero length, the subtraction
  on lengths that do not broadcast, \<^verbatim>\<open>np.dot\<close> on different lengths. Every exception of
  the body, the \<^verbatim>\<open>ValueError\<close> for an unknown method included, reaches the handler, which
  logs one line and returns 0.0. The log lines are the second component of the result.
  The vectors are finite and their components idealised as reals.
\<close>

type_synonym vec = "real list"

definition l2_norm :: "vec \<Rightarrow> real" where
  "l2_norm v = sqrt (sum_sq v)"

definition dot :: "vec \<Rightarrow> vec \<Rightarrow> real" where
  "dot a b = sum_list (map (\<lambda>(x, y). x * y) (zip a b))"

definition handle_zero :: "real \<Rightarrow> real" where
  "handle_zero n = (if n = 0 then 1 else n)"

definition cosine_similarity :: "vec \<Rightarrow> vec \<Rightarrow> exn + real" where
  "cosine_similarity a b =
     (if a = [] \<or> b = [] then Inl ''Found array with 0 feature(s)''
      else if length a \<noteq> length b then Inl ''Incompatible dimension for X and Y matrices''
      else Inr (dot (map (\<lambda>x. x / handle_zero (l2_norm a)) a)
                    (map (\<lambda>y. y / handle_zero (l2_norm b)) b)))"

definition np_subtract :: "vec \<Rightarrow> vec \<Rightarrow> exn + vec" where
  "np_subtract a b =
     (if length a = length b then Inr (map (\<lambda>(x, y). x - y) (zip a b))
      else if length b = 1 then Inr (map (\<lambda>x. x - hd b) a)
      else if length a = 1 then Inr (map (\<lambda>y. hd a - y) b)
      else Inl ''operands could not be broadcast together'')"

definition np_dot :: "vec \<Rightarrow> vec \<Rightarrow> exn + real" where
  "np_dot a b = (if length a = length b then Inr (dot a b) else Inl ''shapes not aligned'')"

definition calculate_similarity_body :: "vec \<Rightarrow> vec \<Rightarrow> string \<Rightarrow> exn + real" where
  "calculate_similarity_body embedding1 embedding2 method =
     (if method = ''cosine'' then cosine_similarity embedding1 embedding2
      else if method = ''euclidean''
      then (case np_subtract embedding1 embedding2 of
              Inl err \<Rightarrow> Inl err
            | Inr d \<Rightarrow> Inr (1 / (1 + l2_norm d)))
      else if method = ''dot'' then np_dot embedding1 embedding2
      else Inl (''Unsupported similarity method: '' @ method))"

definition calculate_similarity :: "vec \<Rightarrow> vec \<Rightarrow> string \<Rightarrow> real \<times> string list" where
  "calculate_similarity embedding1 embedding2 method =
     (case calculate_similarity_body embedding1 embedding2 method of
        Inr v \<Rightarrow> (v, [])
      | Inl err \<Rightarrow> (0.0, [''Error calculating similarity: '' @ err]))"

section \<open>Python values\<close>

text \<open>
  Dictionaries with values of any type (the context of an embedding request, the metadata of
  a result, the source records, the data written to the checkpoint) are association lists of
  Python values. \<^verbatim>\<open>PEnum c n\<close> is the member \<^verbatim>\<open>n\<close> of the \<^verbatim>\<open>Enum\<close> class \<^verbatim>\<open>c\<close>.
  \<^verbatim>\<open>py_str\<close> is \<^verbatim>\<open>str()\<close>, exact on scalars; on containers it follows \<^verbatim>\<open>repr\<close>
  without the escaping of quotes.
\<close>

datatype pyval =
    PNone
  | PBool bool
  | PInt int
  | PStr string
  | PList "pyval list"
  | PDict "(string \<times> pyval) list"
  | PEnum string string

type_synonym pydict = "(string \<times> pyval) list"

fun truthy :: "pyval \<Rightarrow> bool" where
  "truthy PNone = False"
| "truthy (PBool b) = b"
| "truthy (PInt i) = (i \<noteq> 0)"
| "truthy (PStr s) = (s \<noteq> [])"
| "truthy (PList xs) = (xs \<noteq> [])"
| "truthy (PDict kvs) = (kvs \<noteq> [])"
| "truthy (PEnum c n) = True"

definition digit_char :: "nat \<Rightarrow> char" where
  "digit_char d = char_of (48 + d)"

function str_nat :: "nat \<Rightarrow> string" where
  "str_nat n = (if n < 10 then [digit_char n] else str_nat (n div 10) @ [digit_char (n mod 10)])"
  by pat_completeness auto
termination
  by (relation "measure id") auto

definition str_int :: "int \<Rightarrow> string" where
  "str_int i = (if i < 0 then CHR ''-'' # str_nat (nat (- i)) else str_nat (nat i))"

definition join :: "string \<Rightarrow> string list \<Rightarrow> string" where
  "join sep parts = (case parts of [] \<Rightarrow> [] | p # ps \<Rightarrow> foldl (\<lambda>acc q. acc @ sep @ q) p ps)"

fun py_repr :: "pyval \<Rightarrow> string"
  and py_repr_list :: "pyval list \<Rightarrow> string list"
  and py_repr_items :: "(string \<times> pyval) list \<Rightarrow> string list" where
  "py_repr PNone = ''None''"
| "py_repr (PBool b) = (if b then ''True'' else ''False'')"
| "py_repr (PInt i) = str_int i"
| "py_repr (PStr s) = [CHR 0x27] @ s @ [CHR 0x27]"
| "py_repr (PList xs) = ''['' @ join '', '' (py_repr_list xs) @ '']''"
| "py_repr (PDict kvs) = ''{'' @ join '', '' (py_repr_items kvs) @ ''}''"
| "py_repr (PEnum c n) = ''<'' @ c @ ''.'' @ n @ ''>''"
| "py_repr_list [] = []"
| "py_repr_list (x # xs) = py_repr x # py_repr_list xs"
| "py_repr_items [] = []"
| "py_repr_items ((k, v) # kvs) = ([CHR 0x27] @ k @ [CHR 0x27] @ '': '' @ py_repr v) # py_repr_items kvs"

definition py_str :: "pyval \<Rightarrow> string" where
  "py_str v = (case v of PStr s \<Rightarrow> s | PEnum c n \<Rightarrow> c @ ''.'' @ n | _ \<Rightarrow> py_repr v)"

definition dict_get :: "pydict \<Rightarrow> string \<Rightarrow> pyval" where
  "dict_get d k = (case map_of d k of None \<Rightarrow> PNone | Some v \<Rightarrow> v)"

section \<open>The embedding generator\<close>

text \<open>
  \<^verbatim>\<open>EmbeddingResult\<close> is the dataclass of the source; an exception is identified with its
  message \<^verbatim>\<open>str(e)\<close>, of any class derived from \<^verbatim>\<open>Exception\<close>.

  What the outside world does during one call of \<^verbatim>\<open>generate_embedding\<close> is an
  \<^verbatim>\<open>env\<close>: the two readings of \<^verbatim>\<open>time.time()\<close>, the reply of the provider adapter
  for a model and a preprocessed text, and the replies of the cache collection of the
  database. A \<^verbatim>\<open>world\<close> gives the environment of the n-th call, so that providers, clock
  and database may answer differently from call to call, and the hash behind the cache key
  (MD5 in the source, any function here). The generator's own state is the in-memory cache;
  \<^verbatim>\<open>n_calls\<close> counts the calls made so far and selects the environment.
\<close>

definition model_value :: "EmbeddingModel \<Rightarrow> string" where
  "model_value m =
     (case m of
        GEMINI \<Rightarrow> ''gemini''
      | OPENAI \<Rightarrow> ''openai''
      | SENTENCE_TRANSFORMER \<Rightarrow> ''sentence_transformer''
      | HUGGINGFACE \<Rightarrow> ''huggingface''
      | LOCAL \<Rightarrow> ''local'')"

definition model_name :: "EmbeddingModel \<Rightarrow> string" where
  "model_name m =
     (case m of
        GEMINI \<Rightarrow> ''GEMINI''
      | OPENAI \<Rightarrow> ''OPENAI''
      | SENTENCE_TRANSFORMER \<Rightarrow> ''SENTENCE_TRANSFORMER''
      | HUGGINGFACE \<Rightarrow> ''HUGGINGFACE''
      | LOCAL \<Rightarrow> ''LOCAL'')"

record EmbeddingResult =
  success :: bool
  embedding :: "ndarray option"
  model_used :: "string option"
  dimensions :: "nat option"
  quality_score :: "real option"
  processing_time :: "real option"
  metadata :: "pydict option"
  error :: "string option"

record cache_doc =
  cd_cache_key :: string
  cd_text :: string
  cd_model :: string
  cd_embedding :: "ndarray option"
  cd_quality_score :: "real option"
  cd_metadata :: "pydict option"
  cd_created_at :: real

record env =
  t_start :: real
  t_end :: real
  embed :: "EmbeddingModel \<Rightarrow> string \<Rightarrow> exn + ndarray"
  db_find_one :: "string \<Rightarrow> exn + cache_doc option"
  db_insert :: "cache_doc \<Rightarrow> exn option"

record world =
  md5_hex :: "string \<Rightarrow> string"
  envs :: "nat \<Rightarrow> env"
  config_batch_size :: int
  batch_t_start :: real
  batch_t_end :: real
  schedule :: "nat \<Rightarrow> nat list"

record gen_state =
  cache :: "string \<rightharpoonup> EmbeddingResult"
  n_calls :: nat

text \<open>\<^verbatim>\<open>_preprocess_text\<close> and \<^verbatim>\<open>_format_context\<close>.\<close>

definition is_space :: "char \<Rightarrow> bool" where
  "is_space c = (c \<in> set [CHR '' '', CHR 0x09, CHR 0x0A, CHR 0x0B, CHR 0x0C, CHR 0x0D])"

definition strip :: "string \<Rightarrow> string" where
  "strip s = rev (dropWhile is_space (rev (dropWhile is_space s)))"

definition format_context :: "pydict \<Rightarrow> string" where
  "format_context context =
     (let context_parts = [];
          context_parts = (if truthy (dict_get context ''data_type'')
             then context_parts @ [''Data Type: '' @ py_str (dict_get context ''data_type'')]
             else context_parts);
          context_parts = (if truthy (dict_get context ''source_type'')
             then context_parts @ [''Source: '' @ py_str (dict_get context ''source_type'')]
             else context_parts);
          context_parts = (if truthy (dict_get context ''timeframe'')
             then context_parts @ [''Timeframe: '' @ py_str (dict_get context ''timeframe'')]
             else context_parts);
          context_parts = (if truthy (dict_get context ''importance'')
             then context_parts @ [''Importance: '' @ py_str (dict_get context ''importance'') @ ''/10'']
             else context_parts)
      in join '' | '' context_parts)"

definition preprocess_text :: "string \<Rightarrow> pydict option \<Rightarrow> string" where
  "preprocess_text text context =
     (let processed_text = strip text;
          processed_text = (case context of
              None \<Rightarrow> processed_text
            | Some c \<Rightarrow> if c = [] then processed_text
                        else format_context c @ [CHR 0x0A, CHR 0x0A] @ processed_text);
          max_tokens = 8000
      in if length processed_text > max_tokens then take max_tokens processed_text
         else processed_text)"

text \<open>
  \<^verbatim>\<open>_get_cached_embedding\<close> reads the in-memory cache first, then the database, and
  fills the memory on a database hit; \<^verbatim>\<open>_cache_embedding\<close> writes both and swallows
  the exceptions of the database insert.
\<close>

definition generate_cache_key :: "world \<Rightarrow> string \<Rightarrow> EmbeddingModel \<Rightarrow> string" where
  "generate_cache_key w text model = md5_hex w (text @ '':'' @ model_value model)"

definition get_cached_embedding ::
  "world \<Rightarrow> env \<Rightarrow> string \<Rightarrow> EmbeddingModel \<Rightarrow> gen_state
     \<Rightarrow> (exn + EmbeddingResult option) \<times> gen_state" where
  "get_cached_embedding w e text model s =
     (let cache_key = generate_cache_key w text model
      in case cache s cache_key of
           Some r \<Rightarrow> (Inr (Some r), s)
         | None \<Rightarrow>
             (case db_find_one e cache_key of
                Inl err \<Rightarrow> (Inl err, s)
              | Inr None \<Rightarrow> (Inr None, s)
              | Inr (Some cached_doc) \<Rightarrow>
                  (case cd_embedding cached_doc of
                     None \<Rightarrow> (Inl (py_repr (PStr ''embedding'')), s)
                   | Some emb \<Rightarrow>
                       (let result = \<lparr> success = True,
                                       embedding = Some emb,
                                       model_used = Some (model_value model),
                                       dimensions = Some (length emb),
                                       quality_score =
                                         Some (case cd_quality_score cached_doc of
                                                 None \<Rightarrow> 0.8 | Some q \<Rightarrow> q),
                                       processing_time = Some 0.0,
                                       metadata =
                                         Some (case cd_metadata cached_doc of
                                                 None \<Rightarrow> [] | Some m \<Rightarrow> m),
                                       error = None \<rparr>
                        in (Inr (Some result), s\<lparr>cache := (cache s)(cache_key \<mapsto> result)\<rparr>)))))"

definition cache_embedding ::
  "world \<Rightarrow> env \<Rightarrow> string \<Rightarrow> EmbeddingModel \<Rightarrow> EmbeddingResult \<Rightarrow> gen_state
     \<Rightarrow> (exn + unit) \<times> gen_state" where
  "cache_embedding w e text model result s =
     (let cache_key = generate_cache_key w text model;
          s1 = s\<lparr>cache := (cache s)(cache_key \<mapsto> result)\<rparr>
      in case embedding result of
           None \<Rightarrow> (Inl (py_repr (PStr ''NoneType'') @ '' object has no attribute ''
                         @ py_repr (PStr ''tolist'')), s1)
         | Some emb \<Rightarrow>
             (let cache_doc = \<lparr> cd_cache_key = cache_key,
                                cd_text = text,
                                cd_model = model_value model,
                                cd_embedding = Some emb,
                                cd_quality_score = quality_score result,
                                cd_metadata = metadata result,
                                cd_created_at = t_end e \<rparr>;
                  swallowed = db_insert e cache_doc
              in (Inr (), s1)))"

text \<open>
  The body of the \<^verbatim>\<open>try\<close> block of \<^verbatim>\<open>generate_embedding\<close>, and the function with
  its handler. A dataclass instance is always truthy, so a cached result is returned whenever
  one is found.
\<close>

definition provider_dispatch :: "env \<Rightarrow> EmbeddingModel \<Rightarrow> string \<Rightarrow> exn + ndarray" where
  "provider_dispatch e model processed_text =
     (if model = GEMINI then embed e GEMINI processed_text
      else if model = OPENAI then embed e OPENAI processed_text
      else if model = SENTENCE_TRANSFORMER then embed e SENTENCE_TRANSFORMER processed_text
      else if model = HUGGINGFACE then embed e HUGGINGFACE processed_text
      else Inl (''Unsupported model: EmbeddingModel.'' @ model_name model))"

definition context_val :: "pydict option \<Rightarrow> pyval" where
  "context_val context = (case context of None \<Rightarrow> PNone | Some c \<Rightarrow> PDict c)"

definition generate_embedding_body ::
  "world \<Rightarrow> env \<Rightarrow> string \<Rightarrow> EmbeddingModel \<Rightarrow> pydict option \<Rightarrow> bool \<Rightarrow> gen_state
     \<Rightarrow> (exn + EmbeddingResult) \<times> gen_state" where
  "generate_embedding_body w e text model context use_cache s =
     (case (if use_cache then get_cached_embedding w e text model s else (Inr None, s)) of
        (Inl err, s1) \<Rightarrow> (Inl err, s1)
      | (Inr (Some cached_result), s1) \<Rightarrow> (Inr cached_result, s1)
      | (Inr None, s1) \<Rightarrow>
          (let processed_text = preprocess_text text context
           in case provider_dispatch e model processed_text of
                Inl err \<Rightarrow> (Inl err, s1)
              | Inr emb \<Rightarrow>
                  (let quality = validate_embedding emb text model;
                       result = \<lparr> success = True,
                                  embedding = Some emb,
                                  model_used = Some (model_value model),
                                  dimensions = Some (length emb),
                                  quality_score = Some quality,
                                  processing_time = Some (t_end e - t_start e),
                                  metadata = Some [(''text_length'', PInt (int (length text))),
                                                   (''processed_text_length'',
                                                      PInt (int (length processed_text))),
                                                   (''context'', context_val context)],
                                  error = None \<rparr>
                   in if use_cache
                      then (case cache_embedding w e text model result s1 of
                              (Inl err, s2) \<Rightarrow> (Inl err, s2)
                            | (Inr u, s2) \<Rightarrow> (Inr result, s2))
                      else (Inr result, s1))))"

definition failed_result :: "string \<Rightarrow> real option \<Rightarrow> EmbeddingResult" where
  "failed_result msg t =
     \<lparr> success = False, embedding = None, model_used = None, dimensions = None,
       quality_score = None, processing_time = t, metadata = None, error = Some msg \<rparr>"

definition generate_embedding ::
  "world \<Rightarrow> string \<Rightarrow> EmbeddingModel \<Rightarrow> pydict option \<Rightarrow> bool \<Rightarrow> gen_state
     \<Rightarrow> EmbeddingResult \<times> gen_state" where
  "generate_embedding w text model context use_cache s =
     (let e = envs w (n_calls s);
          start_time = t_start e;
          s0 = s\<lparr>n_calls := Suc (n_calls s)\<rparr>
      in case generate_embedding_body w e text model context use_cache s0 of
           (Inr result, s1) \<Rightarrow> (result, s1)
         | (Inl err, s1) \<Rightarrow> (failed_result err (Some (t_end e - start_time)), s1))"

section \<open>Batched generation\<close>

text \<open>
  \<^verbatim>\<open>_process_batch\<close> submits one future per text and collects the results with
  \<^verbatim>\<open>as_completed\<close>, that is in completion order. The completion order is the
  scheduler's choice: \<^verbatim>\<open>as_completed picks futures\<close> removes, at each step, the future at
  position \<^verbatim>\<open>pick mod remaining\<close>, so every list of picks gives a permutation and every
  permutation is given by some picks; without picks the futures complete in submission
  order. The workers' effects on the cache are serialised in submission order.
\<close>

record batch_metadata =
  successful_count :: nat
  failed_count :: nat
  average_quality :: fl
  bm_model_used :: string
  bm_batch_size :: int

record BatchEmbeddingResult =
  b_success :: bool
  b_embeddings :: "ndarray option list option"
  b_failed_indices :: "nat list option"
  b_total_processed :: nat
  b_processing_time :: "real option"
  b_quality_scores :: "real option list option"
  b_metadata :: "batch_metadata option"
  b_errors :: "string option list option"

fun as_completed :: "nat list \<Rightarrow> 'a list \<Rightarrow> 'a list" where
  "as_completed picks [] = []"
| "as_completed [] (f # fs) = f # fs"
| "as_completed (p # picks) (f # fs) =
     (let k = p mod length (f # fs)
      in (f # fs) ! k # as_completed picks (take k (f # fs) @ drop (Suc k) (f # fs)))"

text \<open>
  The submission loop reads \<^verbatim>\<open>context[i]\<close>, which raises \<^verbatim>\<open>IndexError\<close> on a context
  list shorter than the batch; the executor rejects a worker count below one. Both
  exceptions leave \<^verbatim>\<open>_process_batch\<close>. \<^verbatim>\<open>future.result()\<close> returns what
  \<^verbatim>\<open>generate_embedding\<close> returned, which never raises.
\<close>

definition text_context_at :: "pydict list option \<Rightarrow> nat \<Rightarrow> exn + pydict option" where
  "text_context_at context i =
     (case context of
        None \<Rightarrow> Inr None
      | Some cs \<Rightarrow> if cs = [] then Inr None
                   else if i < length cs then Inr (Some (cs ! i))
                   else Inl ''list index out of range'')"

fun submit_all ::
  "world \<Rightarrow> string list \<Rightarrow> EmbeddingModel \<Rightarrow> pydict list option \<Rightarrow> bool \<Rightarrow> nat \<Rightarrow> gen_state
     \<Rightarrow> (exn + EmbeddingResult list) \<times> gen_state" where
  "submit_all w [] model context use_cache i s = (Inr [], s)"
| "submit_all w (text # rest) model context use_cache i s =
     (case text_context_at context i of
        Inl err \<Rightarrow> (Inl err, s)
      | Inr text_context \<Rightarrow>
          (case generate_embedding w text model text_context use_cache s of
             (r, s1) \<Rightarrow>
               (case submit_all w rest model context use_cache (Suc i) s1 of
                  (Inl err, s2) \<Rightarrow> (Inl err, s2)
                | (Inr rs, s2) \<Rightarrow> (Inr (r # rs), s2))))"

definition process_batch ::
  "world \<Rightarrow> nat list \<Rightarrow> string list \<Rightarrow> EmbeddingModel \<Rightarrow> pydict list option \<Rightarrow> bool \<Rightarrow> int
     \<Rightarrow> gen_state \<Rightarrow> (exn + EmbeddingResult list) \<times> gen_state" where
  "process_batch w picks texts model context use_cache max_workers s =
     (if max_workers \<le> 0 then (Inl ''max_workers must be greater than 0'', s)
      else case submit_all w texts model context use_cache 0 s of
             (Inl err, s1) \<Rightarrow> (Inl err, s1)
           | (Inr futures, s1) \<Rightarrow> (Inr (as_completed picks futures), s1))"

text \<open>
  \<^verbatim>\<open>generate_batch_embeddings\<close>: the four lists the loop appends to, the loop over
  \<^verbatim>\<open>range(0, len(texts), batch_size)\<close>, and the function with its handler.
\<close>

record batch_acc =
  acc_embeddings :: "ndarray option list"
  acc_failed_indices :: "nat list"
  acc_quality_scores :: "real option list"
  acc_errors :: "string option list"

fun collect_results :: "nat \<Rightarrow> nat \<Rightarrow> EmbeddingResult list \<Rightarrow> batch_acc \<Rightarrow> batch_acc" where
  "collect_results i j [] acc = acc"
| "collect_results i j (result # rest) acc =
     collect_results i (Suc j) rest
       (if success result
        then acc\<lparr> acc_embeddings := acc_embeddings acc @ [embedding result],
                  acc_quality_scores := acc_quality_scores acc @ [quality_score result] \<rparr>
        else acc\<lparr> acc_failed_indices := acc_failed_indices acc @ [i + j],
                  acc_errors := acc_errors acc @ [error result],
                  acc_embeddings := acc_embeddings acc @ [None],
                  acc_quality_scores := acc_quality_scores acc @ [Some 0.0] \<rparr>)"

definition slice_context :: "pydict list option \<Rightarrow> nat \<Rightarrow> nat \<Rightarrow> pydict list option" where
  "slice_context context i n =
     (case context of
        None \<Rightarrow> None
      | Some cs \<Rightarrow> if cs = [] then None else Some (take n (drop i cs)))"

function batch_loop ::
  "world \<Rightarrow> string list \<Rightarrow> EmbeddingModel \<Rightarrow> nat \<Rightarrow> pydict list option \<Rightarrow> bool \<Rightarrow> int
     \<Rightarrow> nat \<Rightarrow> batch_acc \<Rightarrow> gen_state \<Rightarrow> (exn + batch_acc) \<times> gen_state" where
  "batch_loop w texts model batch_size context use_cache max_workers i acc s =
     (if i < length texts \<and> 0 < batch_size
      then (let batch_texts = take batch_size (drop i texts);
                batch_context = slice_context context i batch_size
            in case process_batch w (schedule w i) batch_texts model batch_context
                      use_cache max_workers s of
                 (Inl err, s1) \<Rightarrow> (Inl err, s1)
               | (Inr batch_results, s1) \<Rightarrow>
                   batch_loop w texts model batch_size context use_cache max_workers
                     (i + batch_size) (collect_results i 0 batch_results acc) s1)
      else (Inr acc, s))"
  by pat_completeness auto
termination
  by (relation "measure (\<lambda>(w, texts, model, batch_size, context, use_cache, max_workers, i, acc, s).
                  length texts - i)") auto

declare batch_loop.simps [simp del]

definition np_mean_fl :: "real list \<Rightarrow> fl" where
  "np_mean_fl xs = (if xs = [] then NaN else Fin (np_mean xs))"

definition average_quality_of :: "real option list \<Rightarrow> exn + fl" where
  "average_quality_of quality_scores =
     (if quality_scores = [] then Inr (Fin 0)
      else if list_ex (\<lambda>q. q = None) quality_scores
      then Inl ''> not supported between instances of NoneType and int''
      else Inr (np_mean_fl (filter (\<lambda>q. q > 0) (List.map_filter (\<lambda>q. q) quality_scores))))"

definition empty_batch_result :: BatchEmbeddingResult where
  "empty_batch_result =
     \<lparr> b_success = False, b_embeddings = None, b_failed_indices = None, b_total_processed = 0,
       b_processing_time = None, b_quality_scores = None, b_metadata = None, b_errors = None \<rparr>"

definition effective_batch_size :: "int option \<Rightarrow> int \<Rightarrow> int" where
  "effective_batch_size batch_size dflt =
     (case batch_size of None \<Rightarrow> dflt | Some b \<Rightarrow> if b = 0 then dflt else b)"

definition generate_batch_embeddings_body ::
  "world \<Rightarrow> string list \<Rightarrow> EmbeddingModel \<Rightarrow> int option \<Rightarrow> pydict list option \<Rightarrow> bool \<Rightarrow> int
     \<Rightarrow> gen_state \<Rightarrow> (exn + BatchEmbeddingResult) \<times> gen_state" where
  "generate_batch_embeddings_body w texts model batch_size context use_cache max_workers s =
     (if texts = []
      then (Inr (empty_batch_result\<lparr> b_errors := Some [Some ''No texts provided''] \<rparr>), s)
      else
        (let bs = effective_batch_size batch_size (config_batch_size w);
             acc0 = \<lparr> acc_embeddings = [], acc_failed_indices = [],
                      acc_quality_scores = [], acc_errors = [] \<rparr>
         in if bs = 0 then (Inl ''range() arg 3 must not be zero'', s)
            else
              (case (if bs < 0 then (Inr acc0, s)
                     else batch_loop w texts model (nat bs) context use_cache max_workers 0 acc0 s) of
                 (Inl err, s1) \<Rightarrow> (Inl err, s1)
               | (Inr acc, s1) \<Rightarrow>
                   (let successful_embeddings = filter (\<lambda>e. e \<noteq> None) (acc_embeddings acc)
                    in case average_quality_of (acc_quality_scores acc) of
                         Inl err \<Rightarrow> (Inl err, s1)
                       | Inr avg_quality \<Rightarrow>
                           (Inr \<lparr> b_success = (length successful_embeddings > 0),
                                  b_embeddings = Some (acc_embeddings acc),
                                  b_failed_indices = Some (acc_failed_indices acc),
                                  b_total_processed = length texts,
                                  b_processing_time = Some (batch_t_end w - batch_t_start w),
                                  b_quality_scores = Some (acc_quality_scores acc),
                                  b_metadata =
                                    Some \<lparr> successful_count = length successful_embeddings,
                                           failed_count = length (acc_failed_indices acc),
                                           average_quality = avg_quality,
                                           bm_model_used = model_value model,
                                           bm_batch_size = bs \<rparr>,
                                  b_errors = Some (acc_errors acc) \<rparr>, s1)))))"

definition generate_batch_embeddings ::
  "world \<Rightarrow> string list \<Rightarrow> EmbeddingModel \<Rightarrow> int option \<Rightarrow> pydict list option \<Rightarrow> bool \<Rightarrow> int
     \<Rightarrow> gen_state \<Rightarrow> BatchEmbeddingResult \<times> gen_state" where
  "generate_batch_embeddings w texts model batch_size context use_cache max_workers s =
     (case generate_batch_embeddings_body w texts model batch_size context use_cache max_workers s of
        (Inr result, s1) \<Rightarrow> (result, s1)
      | (Inl err, s1) \<Rightarrow>
          (empty_batch_result\<lparr> b_errors := Some [Some err],
                               b_processing_time := Some (batch_t_end w - batch_t_start w) \<rparr>, s1))"

section \<open>JSON as the checkpoint file sees it\<close>

text \<open>
  The checkpoint is written with \<^verbatim>\<open>json.dump\<close> and read with \<^verbatim>\<open>json.load\<close>. The
  file is modelled by the sequence of JSON tokens it holds (layout is not significant).
  \<^verbatim>\<open>json.dump\<close> writes the output of the encoder chunk by chunk, so the tokens produced
  before the encoder raises are already in the file; \<^verbatim>\<open>iterencode\<close> returns them
  together with the exception, if any. The encoder raises \<^verbatim>\<open>TypeError\<close> on a member of a
  plain \<^verbatim>\<open>Enum\<close> class. \<^verbatim>\<open>json_load\<close> scans the tokens with a stack of open
  containers and fails unless they form exactly one complete value.
\<close>

datatype token =
    T_LBRACE | T_RBRACE | T_LBRACK | T_RBRACK | T_COMMA | T_COLON
  | T_STR string | T_INT int | T_TRUE | T_FALSE | T_NULL

fun iterencode :: "pyval \<Rightarrow> token list \<times> exn option"
  and iterencode_list :: "pyval list \<Rightarrow> token list \<times> exn option"
  and iterencode_dict :: "(string \<times> pyval) list \<Rightarrow> token list \<times> exn option" where
  "iterencode PNone = ([T_NULL], None)"
| "iterencode (PBool b) = ([if b then T_TRUE else T_FALSE], None)"
| "iterencode (PInt i) = ([T_INT i], None)"
| "iterencode (PStr s) = ([T_STR s], None)"
| "iterencode (PList xs) =
     (case iterencode_list xs of
        (ts, None) \<Rightarrow> (T_LBRACK # ts @ [T_RBRACK], None)
      | (ts, Some err) \<Rightarrow> (T_LBRACK # ts, Some err))"
| "iterencode (PDict kvs) =
     (case iterencode_dict kvs of
        (ts, None) \<Rightarrow> (T_LBRACE # ts @ [T_RBRACE], None)
      | (ts, Some err) \<Rightarrow> (T_LBRACE # ts, Some err))"
| "iterencode (PEnum c n) = ([], Some (''Object of type '' @ c @ '' is not JSON serializable''))"
| "iterencode_list [] = ([], None)"
| "iterencode_list (x # xs) =
     (case iterencode x of
        (ts, Some err) \<Rightarrow> (ts, Some err)
      | (ts, None) \<Rightarrow>
          (if xs = [] then (ts, None)
           else (case iterencode_list xs of (ts', r) \<Rightarrow> (ts @ T_COMMA # ts', r))))"
| "iterencode_dict [] = ([], None)"
| "iterencode_dict ((k, v) # kvs) =
     (case iterencode v of
        (ts, Some err) \<Rightarrow> (T_STR k # T_COLON # ts, Some err)
      | (ts, None) \<Rightarrow>
          (if kvs = [] then (T_STR k # T_COLON # ts, None)
           else (case iterencode_dict kvs of
                   (ts', r) \<Rightarrow> (T_STR k # T_COLON # ts @ T_COMMA # ts', r))))"

datatype frame = FList "pyval list" | FDict "(string \<times> pyval) list" | FKey string

datatype pmode =
    ExpValue | ExpValueOrEnd | ExpKeyOrEnd | ExpKey | ExpColon | ExpCommaOrEnd
  | Done pyval | Bad

definition complete_value :: "pyval \<Rightarrow> frame list \<Rightarrow> frame list \<times> pmode" where
  "complete_value v st =
     (case st of
        [] \<Rightarrow> ([], Done v)
      | FList xs # rest \<Rightarrow> (FList (xs @ [v]) # rest, ExpCommaOrEnd)
      | FKey k # FDict kvs # rest \<Rightarrow> (FDict (kvs @ [(k, v)]) # rest, ExpCommaOrEnd)
      | _ \<Rightarrow> (st, Bad))"

definition start_value :: "token \<Rightarrow> frame list \<Rightarrow> frame list \<times> pmode" where
  "start_value t st =
     (case t of
        T_NULL \<Rightarrow> complete_value PNone st
      | T_TRUE \<Rightarrow> complete_value (PBool True) st
      | T_FALSE \<Rightarrow> complete_value (PBool False) st
      | T_INT i \<Rightarrow> complete_value (PInt i) st
      | T_STR s \<Rightarrow> complete_value (PStr s) st
      | T_LBRACK \<Rightarrow> (FList [] # st, ExpValueOrEnd)
      | T_LBRACE \<Rightarrow> (FDict [] # st, ExpKeyOrEnd)
      | _ \<Rightarrow> (st, Bad))"

definition close_list :: "frame list \<Rightarrow> frame list \<times> pmode" where
  "close_list st = (case st of FList xs # rest \<Rightarrow> complete_value (PList xs) rest | _ \<Rightarrow> (st, Bad))"

definition close_dict :: "frame list \<Rightarrow> frame list \<times> pmode" where
  "close_dict st = (case st of FDict kvs # rest \<Rightarrow> complete_value (PDict kvs) rest | _ \<Rightarrow> (st, Bad))"

definition parse_step :: "frame list \<times> pmode \<Rightarrow> token \<Rightarrow> frame list \<times> pmode" where
  "parse_step state t =
     (case state of (st, mode) \<Rightarrow>
        (case mode of
           ExpValue \<Rightarrow> start_value t st
         | ExpValueOrEnd \<Rightarrow> (if t = T_RBRACK then close_list st else start_value t st)
         | ExpKeyOrEnd \<Rightarrow>
             (case t of T_STR k \<Rightarrow> (FKey k # st, ExpColon)
                      | T_RBRACE \<Rightarrow> close_dict st
                      | _ \<Rightarrow> (st, Bad))
         | ExpKey \<Rightarrow> (case t of T_STR k \<Rightarrow> (FKey k # st, ExpColon) | _ \<Rightarrow> (st, Bad))
         | ExpColon \<Rightarrow> (if t = T_COLON then (st, ExpValue) else (st, Bad))
         | ExpCommaOrEnd \<Rightarrow>
             (case t of
                T_COMMA \<Rightarrow> (case st of FList xs # rest \<Rightarrow> (st, ExpValue)
                                      | FDict kvs # rest \<Rightarrow> (st, ExpKey)
                                      | _ \<Rightarrow> (st, Bad))
              | T_RBRACK \<Rightarrow> close_list st
              | T_RBRACE \<Rightarrow> close_dict st
              | _ \<Rightarrow> (st, Bad))
         | Done v \<Rightarrow> (st, Bad)
         | Bad \<Rightarrow> (st, Bad)))"

definition json_load :: "token list \<Rightarrow> exn + pyval" where
  "json_load toks =
     (case foldl parse_step ([], ExpValue) toks of
        (st, Done v) \<Rightarrow> Inr v
      | _ \<Rightarrow> Inl ''JSONDecodeError'')"

section \<open>The vector migrator\<close>

text \<open>
  Source: \<^verbatim>\<open>backend/python/services/vector_migrator.py\<close> and, for the context manager
  the migration functions enter, \<^verbatim>\<open>backend/python/utils/logger.py\<close>.

  \<^verbatim>\<open>mworld\<close> is the outside world of a migration run: the generator's world, the replies
  of the document store, the content templates (\<^verbatim>\<open>_extract_analytics_content\<close> and its
  siblings, deterministic string builders that are taken as given and may raise), the clock,
  and whether the disk accepts writes and removals. \<^verbatim>\<open>migrator\<close> is the object's state;
  \<^verbatim>\<open>checkpoint_file\<close> is the content of the file of that name, \<^verbatim>\<open>None\<close> when the file
  does not exist, and \<^verbatim>\<open>batch_trace\<close> records the size of every batch the migration
  loops hand to their batch processor.
\<close>

datatype DataSource =
  ANALYTICS | SESSIONS | CAMPAIGNS | TRANSACTIONS | SMART_CONTRACTS | GRANULAR_EVENTS

definition source_value :: "DataSource \<Rightarrow> string" where
  "source_value src =
     (case src of
        ANALYTICS \<Rightarrow> ''analytics''
      | SESSIONS \<Rightarrow> ''sessions''
      | CAMPAIGNS \<Rightarrow> ''campaigns''
      | TRANSACTIONS \<Rightarrow> ''transactions''
      | SMART_CONTRACTS \<Rightarrow> ''smart_contracts''
      | GRANULAR_EVENTS \<Rightarrow> ''granular_events'')"

definition source_name :: "DataSource \<Rightarrow> string" where
  "source_name src =
     (case src of
        ANALYTICS \<Rightarrow> ''ANALYTICS''
      | SESSIONS \<Rightarrow> ''SESSIONS''
      | CAMPAIGNS \<Rightarrow> ''CAMPAIGNS''
      | TRANSACTIONS \<Rightarrow> ''TRANSACTIONS''
      | SMART_CONTRACTS \<Rightarrow> ''SMART_CONTRACTS''
      | GRANULAR_EVENTS \<Rightarrow> ''GRANULAR_EVENTS'')"

record MigrationConfig =
  source_types :: "DataSource list"
  batch_size :: int
  max_workers :: int
  embedding_model :: EmbeddingModel
  validate_data :: bool
  optimize_embeddings_flag :: bool
  backup_original :: bool
  resume_from_checkpoint :: bool

record MigrationProgress =
  total_records :: int
  processed_records :: int
  successful_records :: int
  failed_records :: int
  skipped_records :: int
  current_source :: "string option"
  start_time :: "real option"
  estimated_completion :: "real option"
  errors :: "string list"

record MigrationResult =
  m_success :: bool
  m_progress :: MigrationProgress
  m_processing_time :: real
  m_metadata :: pydict

type_synonym document = pydict

record query_filter =
  siteId_in :: "string list option"
  contractId_in :: "string list option"
  createdAt_gte :: "real option"
  createdAt_lte :: "real option"

record vector_metadata =
  dataType :: string
  originalRecord :: document
  embeddingModel :: "string option"
  qualityScore :: "real option"
  processingTime :: "real option"
  migrationTimestamp :: string

record vector_doc =
  documentId :: string
  sourceType :: string
  sourceId :: pyval
  siteId :: pyval
  teamId :: pyval
  vd_embedding :: ndarray
  vd_content :: pyval
  vd_metadata :: vector_metadata
  status :: string
  createdAt :: real
  updatedAt :: real

record mworld =
  gen_world :: world
  find_documents :: "string \<Rightarrow> query_filter \<Rightarrow> exn + document list"
  count_documents :: "string \<Rightarrow> query_filter \<Rightarrow> exn + int"
  insert_vector_document :: "vector_doc \<Rightarrow> exn option"
  extract_content :: "string \<Rightarrow> document \<Rightarrow> exn + string"
  now :: real
  now_iso :: string
  run_t_start :: real
  run_t_end :: real
  disk_writable :: bool

record migrator =
  config :: MigrationConfig
  progress :: MigrationProgress
  is_running :: bool
  should_pause :: bool
  checkpoint_file :: "token list option"
  embedding_generator :: gen_state
  vectordocuments :: "vector_doc list"
  batch_trace :: "nat list"

datatype record_result = RecordOk pyval | RecordFailed "string option"

fun result_success :: "record_result \<Rightarrow> bool" where
  "result_success (RecordOk _) = True"
| "result_success (RecordFailed _) = False"

definition dict_index :: "pydict \<Rightarrow> string \<Rightarrow> exn + pyval" where
  "dict_index d k = (case map_of d k of None \<Rightarrow> Inl (py_repr (PStr k)) | Some v \<Rightarrow> Inr v)"

definition create_vector_document ::
  "mworld \<Rightarrow> document \<Rightarrow> EmbeddingResult \<Rightarrow> string \<Rightarrow> exn + vector_doc" where
  "create_vector_document w original_record embedding_result source_type =
     (case dict_index original_record ''_id'' of
        Inl err \<Rightarrow> Inl err
      | Inr rid \<Rightarrow>
          (case embedding embedding_result of
             None \<Rightarrow> Inl (py_repr (PStr ''NoneType'') @ '' object has no attribute ''
                           @ py_repr (PStr ''tolist''))
           | Some emb \<Rightarrow>
               (case metadata embedding_result of
                  None \<Rightarrow> Inl (py_repr (PStr ''NoneType'') @ '' object has no attribute ''
                                @ py_repr (PStr ''get''))
                | Some md \<Rightarrow>
                    Inr \<lparr> documentId = source_type @ ''_'' @ py_str rid,
                          sourceType = source_type,
                          sourceId = rid,
                          siteId = dict_get original_record ''siteId'',
                          teamId = dict_get original_record ''teamId'',
                          vd_embedding = emb,
                          vd_content = (case map_of md ''processed_text_length'' of
                                          None \<Rightarrow> PStr [] | Some v \<Rightarrow> v),
                          vd_metadata = \<lparr> dataType = source_type,
                                          originalRecord = original_record,
                                          embeddingModel = model_used embedding_result,
                                          qualityScore = quality_score embedding_result,
                                          processingTime = processing_time embedding_result,
                                          migrationTimestamp = now_iso w \<rparr>,
                          status = ''active'',
                          createdAt = now w,
                          updatedAt = now w \<rparr>)))"

text \<open>
  The body of the loop of \<^verbatim>\<open>_process_analytics_batch\<close> (and of its two siblings, which
  differ in the data type, the context key and the importance): one record, with every
  exception turned into a failed entry of the result list.
\<close>

definition process_record ::
  "mworld \<Rightarrow> string \<Rightarrow> string \<Rightarrow> string \<Rightarrow> int \<Rightarrow> document \<Rightarrow> migrator
     \<Rightarrow> record_result \<times> migrator" where
  "process_record w data_type ctx_key rec_key importance doc m =
     (case extract_content w data_type doc of
        Inl err \<Rightarrow> (RecordFailed (Some err), m)
      | Inr content \<Rightarrow>
          (case generate_embedding (gen_world w) content (embedding_model (config m))
                  (Some [(''data_type'', PStr data_type),
                         (''source_type'', PStr data_type),
                         (ctx_key, dict_get doc rec_key),
                         (''importance'', PInt importance)])
                  True (embedding_generator m) of
             (embedding_result, g1) \<Rightarrow>
               (let m1 = m\<lparr>embedding_generator := g1\<rparr>
                in if success embedding_result
                   then (case create_vector_document w doc embedding_result data_type of
                           Inl err \<Rightarrow> (RecordFailed (Some err), m1)
                         | Inr vector_doc \<Rightarrow>
                             (case insert_vector_document w vector_doc of
                                Some err \<Rightarrow> (RecordFailed (Some err), m1)
                              | None \<Rightarrow>
                                  (RecordOk (dict_get doc ''_id''),
                                   m1\<lparr>vectordocuments := vectordocuments m1 @ [vector_doc]\<rparr>)))
                   else (RecordFailed (error embedding_result), m1))))"

fun process_records ::
  "mworld \<Rightarrow> string \<Rightarrow> string \<Rightarrow> string \<Rightarrow> int \<Rightarrow> document list \<Rightarrow> migrator
     \<Rightarrow> record_result list \<times> migrator" where
  "process_records w data_type ctx_key rec_key importance [] m = ([], m)"
| "process_records w data_type ctx_key rec_key importance (doc # rest) m =
     (case process_record w data_type ctx_key rec_key importance doc m of
        (r, m1) \<Rightarrow>
          (case process_records w data_type ctx_key rec_key importance rest m1 of
             (rs, m2) \<Rightarrow> (r # rs, m2)))"

definition process_analytics_batch ::
  "mworld \<Rightarrow> document list \<Rightarrow> migrator \<Rightarrow> record_result list \<times> migrator" where
  "process_analytics_batch w batch m =
     process_records w ''analytics'' ''site_id'' ''siteId'' 7 batch m"

definition process_session_batch ::
  "mworld \<Rightarrow> document list \<Rightarrow> migrator \<Rightarrow> record_result list \<times> migrator" where
  "process_session_batch w batch m =
     process_records w ''session'' ''site_id'' ''siteId'' 6 batch m"

definition process_transaction_batch ::
  "mworld \<Rightarrow> document list \<Rightarrow> migrator \<Rightarrow> record_result list \<times> migrator" where
  "process_transaction_batch w batch m =
     process_records w ''transaction'' ''contract_id'' ''contractId'' 8 batch m"

text \<open>
  The loop of \<^verbatim>\<open>migrate_analytics_data\<close> over \<^verbatim>\<open>range(0, total_records, batch_size)\<close>.
  \<^verbatim>\<open>successful_migrations\<close> accumulates over the batches and the accumulated value is
  added to \<^verbatim>\<open>progress.successful_records\<close> after every batch, as the source does.
\<close>

function migrate_loop ::
  "(document list \<Rightarrow> migrator \<Rightarrow> record_result list \<times> migrator)
     \<Rightarrow> document list \<Rightarrow> nat \<Rightarrow> nat \<Rightarrow> int \<Rightarrow> migrator \<Rightarrow> int \<times> migrator" where
  "migrate_loop process_batch_fn data bs i successful_migrations m =
     (if i < length data \<and> 0 < bs
      then (let batch = take bs (drop i data)
            in case process_batch_fn batch m of
                 (batch_results, m1) \<Rightarrow>
                   (let successful_migrations =
                          successful_migrations + int (length (filter result_success batch_results));
                        p = progress m1;
                        p = p\<lparr>processed_records := processed_records p + int (length batch)\<rparr>;
                        p = p\<lparr>successful_records := successful_records p + successful_migrations\<rparr>
                    in migrate_loop process_batch_fn data bs (i + bs)
                         successful_migrations
                         (m1\<lparr>progress := p, batch_trace := batch_trace m1 @ [length batch]\<rparr>)))
      else (successful_migrations, m))"
  by pat_completeness auto
termination
  by (relation "measure (\<lambda>(f, data, bs, i, sm, m). length data - i)") auto

declare migrate_loop.simps [simp del]

definition ids_filter :: "string list option \<Rightarrow> string list option" where
  "ids_filter ids = (case ids of None \<Rightarrow> None | Some xs \<Rightarrow> if xs = [] then None else Some xs)"

definition empty_filter :: query_filter where
  "empty_filter = \<lparr> siteId_in = None, contractId_in = None,
                     createdAt_gte = None, createdAt_lte = None \<rparr>"

text \<open>
  \<^verbatim>\<open>utils/logger.py\<close>. \<^verbatim>\<open>logger_globals\<close> lists the names the module binds at top
  level: its imports and its definitions. The module \<^verbatim>\<open>time\<close> is imported only inside
  the two decorators \<^verbatim>\<open>log_performance\<close> and \<^verbatim>\<open>log_async_performance\<close>, where the
  name is local; it is not a name of the module, nor a builtin. \<^verbatim>\<open>LogContext.__enter__\<close>
  and \<^verbatim>\<open>LogContext.__exit__\<close> both start with \<^verbatim>\<open>time.time()\<close>, a lookup of the global
  name \<^verbatim>\<open>time\<close>, which raises \<^verbatim>\<open>NameError\<close> when the name is not bound.
  \<^verbatim>\<open>with_LogContext body\<close> is the statement \<^verbatim>\<open>with LogContext(...): body\<close>: the body
  runs only if \<^verbatim>\<open>__enter__\<close> returns, and an exception of \<^verbatim>\<open>__exit__\<close> replaces the
  outcome of the body.
\<close>

definition logger_globals :: "string list" where
  "logger_globals =
     [''sys'', ''os'', ''Path'', ''logger'', ''Optional'', ''setup_logger'', ''get_logger'',
      ''log_performance'', ''log_async_performance'', ''LogContext'']"

definition load_global :: "string list \<Rightarrow> string \<Rightarrow> exn + unit" where
  "load_global globals name =
     (if name \<in> set globals then Inr ()
      else Inl (''name '' @ py_repr (PStr name) @ '' is not defined''))"

definition LogContext_enter :: "exn + unit" where
  "LogContext_enter = load_global logger_globals ''time''"

definition LogContext_exit :: "exn + unit" where
  "LogContext_exit = load_global logger_globals ''time''"

definition with_LogContext :: "('s \<Rightarrow> (exn + 'a) \<times> 's) \<Rightarrow> 's \<Rightarrow> (exn + 'a) \<times> 's" where
  "with_LogContext body s =
     (case LogContext_enter of
        Inl err \<Rightarrow> (Inl err, s)
      | Inr _ \<Rightarrow>
          (case body s of
             (r, s1) \<Rightarrow>
               (case LogContext_exit of
                  Inl err \<Rightarrow> (Inl err, s1)
                | Inr _ \<Rightarrow> (r, s1))))"

text \<open>
  \<^verbatim>\<open>migrate_analytics_data\<close> and its two siblings, which differ in the collection, the
  filter and the batch processor. \<^verbatim>\<open>migrate_source_steps\<close> is the block inside the
  \<^verbatim>\<open>with\<close> statement, \<^verbatim>\<open>migrate_source_body\<close> the body of the \<^verbatim>\<open>try\<close>, that is, the
  \<^verbatim>\<open>with\<close> statement itself, and \<^verbatim>\<open>migrate_source\<close> the function with its handler.
\<close>

definition migrate_source_steps ::
  "mworld \<Rightarrow> string \<Rightarrow> query_filter
     \<Rightarrow> (document list \<Rightarrow> migrator \<Rightarrow> record_result list \<times> migrator)
     \<Rightarrow> int \<Rightarrow> migrator \<Rightarrow> (exn + MigrationResult) \<times> migrator" where
  "migrate_source_steps w collection filter_dict process_batch_fn bs m =
     (case find_documents w collection filter_dict of
        Inl err \<Rightarrow> (Inl err, m)
      | Inr data \<Rightarrow>
          (if data = []
           then (Inr \<lparr> m_success = True, m_progress = progress m,
                       m_processing_time = run_t_end w - run_t_start w,
                       m_metadata = [(''message'', PStr ''No data to migrate'')] \<rparr>, m)
           else if bs = 0 then (Inl ''range() arg 3 must not be zero'', m)
           else
             (case (if bs < 0 then (0, m)
                    else migrate_loop process_batch_fn data (nat bs) 0 0 m) of
                (successful_migrations, m1) \<Rightarrow>
                  (Inr \<lparr> m_success = True, m_progress = progress m1,
                         m_processing_time = run_t_end w - run_t_start w,
                         m_metadata = [(''total_records'', PInt (int (length data))),
                                       (''successful_migrations'', PInt successful_migrations)] \<rparr>,
                   m1))))"

definition migrate_source_body ::
  "mworld \<Rightarrow> string \<Rightarrow> query_filter
     \<Rightarrow> (document list \<Rightarrow> migrator \<Rightarrow> record_result list \<times> migrator)
     \<Rightarrow> int option \<Rightarrow> migrator \<Rightarrow> (exn + MigrationResult) \<times> migrator" where
  "migrate_source_body w collection filter_dict process_batch_fn batch_size_arg m =
     (let bs = effective_batch_size batch_size_arg (batch_size (config m))
      in with_LogContext (migrate_source_steps w collection filter_dict process_batch_fn bs) m)"

definition migrate_source ::
  "mworld \<Rightarrow> string \<Rightarrow> query_filter
     \<Rightarrow> (document list \<Rightarrow> migrator \<Rightarrow> record_result list \<times> migrator)
     \<Rightarrow> int option \<Rightarrow> migrator \<Rightarrow> MigrationResult \<times> migrator" where
  "migrate_source w collection filter_dict process_batch_fn batch_size_arg m =
     (case migrate_source_body w collection filter_dict process_batch_fn batch_size_arg m of
        (Inr result, m1) \<Rightarrow> (result, m1)
      | (Inl err, m1) \<Rightarrow>
          (\<lparr> m_success = False, m_progress = progress m1,
             m_processing_time = run_t_end w - run_t_start w,
             m_metadata = [(''error'', PStr err)] \<rparr>, m1))"

definition migrate_analytics_data ::
  "mworld \<Rightarrow> string list option \<Rightarrow> int option \<Rightarrow> migrator \<Rightarrow> MigrationResult \<times> migrator" where
  "migrate_analytics_data w site_ids batch_size_arg m =
     migrate_source w ''analytics'' (empty_filter\<lparr>siteId_in := ids_filter site_ids\<rparr>)
       (process_analytics_batch w) batch_size_arg m"

definition migrate_session_data ::
  "mworld \<Rightarrow> string list option \<Rightarrow> int option \<Rightarrow> migrator \<Rightarrow> MigrationResult \<times> migrator" where
  "migrate_session_data w site_ids batch_size_arg m =
     migrate_source w ''sessions'' (empty_filter\<lparr>siteId_in := ids_filter site_ids\<rparr>)
       (process_session_batch w) batch_size_arg m"

definition migrate_transaction_data ::
  "mworld \<Rightarrow> string list option \<Rightarrow> int option \<Rightarrow> migrator \<Rightarrow> MigrationResult \<times> migrator" where
  "migrate_transaction_data w contract_ids batch_size_arg m =
     migrate_source w ''transactions'' (empty_filter\<lparr>contractId_in := ids_filter contract_ids\<rparr>)
       (process_transaction_batch w) batch_size_arg m"

text \<open>
  \<^verbatim>\<open>_save_checkpoint\<close> and \<^verbatim>\<open>_load_checkpoint\<close>. \<^verbatim>\<open>config.__dict__\<close> holds the members
  of \<^verbatim>\<open>DataSource\<close> and \<^verbatim>\<open>EmbeddingModel\<close> as they are. Opening the file for writing
  creates or truncates it, then the tokens are written until the encoder raises; every
  exception is logged and swallowed. The loader assigns the five fields one after the other,
  so an exception in the middle keeps the fields assigned so far; a value that is not of the
  field's type stops the loader here.
\<close>

definition config_dict :: "MigrationConfig \<Rightarrow> pydict" where
  "config_dict c =
     [(''source_types'', PList (map (\<lambda>src. PEnum ''DataSource'' (source_name src)) (source_types c))),
      (''batch_size'', PInt (batch_size c)),
      (''max_workers'', PInt (max_workers c)),
      (''embedding_model'', PEnum ''EmbeddingModel'' (model_name (embedding_model c))),
      (''validate_data'', PBool (validate_data c)),
      (''optimize_embeddings'', PBool (optimize_embeddings_flag c)),
      (''backup_original'', PBool (backup_original c)),
      (''resume_from_checkpoint'', PBool (resume_from_checkpoint c))]"

definition progress_dict :: "MigrationProgress \<Rightarrow> pydict" where
  "progress_dict p =
     [(''total_records'', PInt (total_records p)),
      (''processed_records'', PInt (processed_records p)),
      (''successful_records'', PInt (successful_records p)),
      (''failed_records'', PInt (failed_records p)),
      (''current_source'', (case current_source p of None \<Rightarrow> PNone | Some s \<Rightarrow> PStr s))]"

definition checkpoint_data :: "mworld \<Rightarrow> migrator \<Rightarrow> pyval" where
  "checkpoint_data w m =
     PDict [(''progress'', PDict (progress_dict (progress m))),
            (''config'', PDict (config_dict (config m))),
            (''timestamp'', PStr (now_iso w))]"

definition save_checkpoint :: "mworld \<Rightarrow> migrator \<Rightarrow> migrator" where
  "save_checkpoint w m =
     (if disk_writable w
      then m\<lparr>checkpoint_file := Some (fst (iterencode (checkpoint_data w m)))\<rparr>
      else m)"

definition subscript :: "pyval \<Rightarrow> string \<Rightarrow> exn + pyval" where
  "subscript v k =
     (case v of
        PDict kvs \<Rightarrow> (case map_of (rev kvs) k of
                        None \<Rightarrow> Inl (py_repr (PStr k))
                      | Some x \<Rightarrow> Inr x)
      | _ \<Rightarrow> Inl ''object is not subscriptable'')"

definition int_item :: "pyval \<Rightarrow> string \<Rightarrow> exn + int" where
  "int_item v k =
     (case subscript v k of
        Inl err \<Rightarrow> Inl err
      | Inr (PInt i) \<Rightarrow> Inr i
      | Inr _ \<Rightarrow> Inl ''not an integer'')"

definition source_item :: "pyval \<Rightarrow> string \<Rightarrow> exn + string option" where
  "source_item v k =
     (case subscript v k of
        Inl err \<Rightarrow> Inl err
      | Inr PNone \<Rightarrow> Inr None
      | Inr (PStr s) \<Rightarrow> Inr (Some s)
      | Inr _ \<Rightarrow> Inl ''not a string'')"

definition restore_progress :: "pyval \<Rightarrow> migrator \<Rightarrow> migrator" where
  "restore_progress data m =
     (case subscript data ''progress'' of
        Inl err \<Rightarrow> m
      | Inr progress_data \<Rightarrow>
     (case int_item progress_data ''total_records'' of
        Inl err \<Rightarrow> m
      | Inr v1 \<Rightarrow>
     (let m1 = m\<lparr>progress := (progress m)\<lparr>total_records := v1\<rparr>\<rparr>
      in case int_item progress_data ''processed_records'' of
        Inl err \<Rightarrow> m1
      | Inr v2 \<Rightarrow>
     (let m2 = m1\<lparr>progress := (progress m1)\<lparr>processed_records := v2\<rparr>\<rparr>
      in case int_item progress_data ''successful_records'' of
        Inl err \<Rightarrow> m2
      | Inr v3 \<Rightarrow>
     (let m3 = m2\<lparr>progress := (progress m2)\<lparr>successful_records := v3\<rparr>\<rparr>
      in case int_item progress_data ''failed_records'' of
        Inl err \<Rightarrow> m3
      | Inr v4 \<Rightarrow>
     (let m4 = m3\<lparr>progress := (progress m3)\<lparr>failed_records := v4\<rparr>\<rparr>
      in case source_item progress_data ''current_source'' of
        Inl err \<Rightarrow> m4
      | Inr v5 \<Rightarrow> m4\<lparr>progress := (progress m4)\<lparr>current_source := v5\<rparr>\<rparr>))))))"

definition load_checkpoint :: "migrator \<Rightarrow> migrator" where
  "load_checkpoint m =
     (case checkpoint_file m of
        None \<Rightarrow> m
      | Some toks \<Rightarrow>
          (case json_load toks of
             Inl err \<Rightarrow> m
           | Inr data \<Rightarrow> restore_progress data m))"

definition pause_migration :: "mworld \<Rightarrow> migrator \<Rightarrow> migrator" where
  "pause_migration w m = save_checkpoint w (m\<lparr>should_pause := True\<rparr>)"

definition resume_migration :: "migrator \<Rightarrow> migrator" where
  "resume_migration m = load_checkpoint (m\<lparr>should_pause := False\<rparr>)"

definition finalize_migration :: "mworld \<Rightarrow> migrator \<Rightarrow> migrator" where
  "finalize_migration w m =
     (let m1 = m\<lparr>progress := (progress m)\<lparr>estimated_completion := Some (now w)\<rparr>\<rparr>
      in if checkpoint_file m1 \<noteq> None \<and> disk_writable w
         then m1\<lparr>checkpoint_file := None\<rparr>
         else m1)"

record run_args =
  site_ids :: "string list option"
  team_ids :: "string list option"
  start_date :: "real option"
  end_date :: "real option"

fun contract_ids_of :: "document list \<Rightarrow> exn + string list" where
  "contract_ids_of [] = Inr []"
| "contract_ids_of (c # cs) =
     (case dict_index c ''_id'' of
        Inl err \<Rightarrow> Inl err
      | Inr v \<Rightarrow> (case contract_ids_of cs of
                    Inl err \<Rightarrow> Inl err
                  | Inr ids \<Rightarrow> Inr (py_str v # ids)))"

definition site_contract_ids :: "mworld \<Rightarrow> string list \<Rightarrow> exn + string list" where
  "site_contract_ids w sites =
     (case find_documents w ''smartcontracts'' (empty_filter\<lparr>siteId_in := Some sites\<rparr>) of
        Inl err \<Rightarrow> Inl err
      | Inr contracts \<Rightarrow> contract_ids_of contracts)"

definition with_dates :: "run_args \<Rightarrow> query_filter \<Rightarrow> query_filter" where
  "with_dates a f =
     (if start_date a = None \<and> end_date a = None then f
      else f\<lparr>createdAt_gte := start_date a, createdAt_lte := end_date a\<rparr>)"

text \<open>\<^verbatim>\<open>_count_source_records\<close>, \<^verbatim>\<open>_calculate_total_records\<close> and \<^verbatim>\<open>_migrate_data_source\<close>.\<close>

definition count_source_records :: "mworld \<Rightarrow> DataSource \<Rightarrow> run_args \<Rightarrow> exn + int" where
  "count_source_records w source a =
     (if source = ANALYTICS
      then count_documents w ''analytics''
             (with_dates a (empty_filter\<lparr>siteId_in := ids_filter (site_ids a)\<rparr>))
      else if source = SESSIONS
      then count_documents w ''sessions''
             (with_dates a (empty_filter\<lparr>siteId_in := ids_filter (site_ids a)\<rparr>))
      else if source = CAMPAIGNS
      then count_documents w ''campaigns''
             (with_dates a (empty_filter\<lparr>siteId_in := ids_filter (site_ids a)\<rparr>))
      else if source = TRANSACTIONS
      then (case ids_filter (site_ids a) of
              None \<Rightarrow> count_documents w ''transactions'' (with_dates a empty_filter)
            | Some sites \<Rightarrow>
                (case site_contract_ids w sites of
                   Inl err \<Rightarrow> Inl err
                 | Inr ids \<Rightarrow>
                     count_documents w ''transactions''
                       (with_dates a (empty_filter\<lparr>contractId_in := Some ids\<rparr>))))
      else Inr 0)"

fun count_all :: "mworld \<Rightarrow> run_args \<Rightarrow> DataSource list \<Rightarrow> int \<Rightarrow> exn + int" where
  "count_all w a [] acc = Inr acc"
| "count_all w a (source # rest) acc =
     (case count_source_records w source a of
        Inl err \<Rightarrow> Inl err
      | Inr c \<Rightarrow> count_all w a rest (acc + c))"

definition calculate_total_records :: "mworld \<Rightarrow> run_args \<Rightarrow> migrator \<Rightarrow> exn option \<times> migrator" where
  "calculate_total_records w a m =
     (case count_all w a (source_types (config m)) 0 of
        Inl err \<Rightarrow> (Some err, m)
      | Inr n \<Rightarrow> (None, m\<lparr>progress := (progress m)\<lparr>total_records := n\<rparr>\<rparr>))"

definition migrate_data_source ::
  "mworld \<Rightarrow> DataSource \<Rightarrow> run_args \<Rightarrow> migrator \<Rightarrow> exn option \<times> migrator" where
  "migrate_data_source w source a m =
     (if source = ANALYTICS
      then (None, snd (migrate_analytics_data w (site_ids a) (Some (batch_size (config m))) m))
      else if source = SESSIONS
      then (None, snd (migrate_session_data w (site_ids a) (Some (batch_size (config m))) m))
      else if source = TRANSACTIONS
      then (case ids_filter (site_ids a) of
              None \<Rightarrow>
                (None, snd (migrate_transaction_data w None (Some (batch_size (config m))) m))
            | Some sites \<Rightarrow>
                (case site_contract_ids w sites of
                   Inl err \<Rightarrow> (Some err, m)
                 | Inr ids \<Rightarrow>
                     (None, snd (migrate_transaction_data w (Some ids)
                                   (Some (batch_size (config m))) m))))
      else (None, m))"

text \<open>
  \<^verbatim>\<open>migrate_all_data\<close>. \<^verbatim>\<open>sources_loop\<close> is the loop over the configured sources, with
  its pause check at the top of each iteration; \<^verbatim>\<open>migrate_all_data_steps\<close> is the block
  inside the \<^verbatim>\<open>with\<close> statement, where \<^verbatim>\<open>_finalize_migration\<close> follows the loop on
  every path that does not raise; \<^verbatim>\<open>migrate_all_data_body\<close> is the body of the
  \<^verbatim>\<open>try\<close>, and \<^verbatim>\<open>migrate_all_data\<close> the function with its handler and its
  \<^verbatim>\<open>finally\<close> clause.
\<close>

fun sources_loop ::
  "mworld \<Rightarrow> run_args \<Rightarrow> DataSource list \<Rightarrow> migrator \<Rightarrow> exn option \<times> migrator" where
  "sources_loop w a [] m = (None, m)"
| "sources_loop w a (source # rest) m =
     (if should_pause m then (None, save_checkpoint w m)
      else
        (let m1 = m\<lparr>progress := (progress m)\<lparr>current_source := Some (source_value source)\<rparr>\<rparr>
         in case migrate_data_source w source a m1 of
              (Some err, m2) \<Rightarrow> (Some err, m2)
            | (None, m2) \<Rightarrow> sources_loop w a rest m2))"

definition migrate_all_data_steps ::
  "mworld \<Rightarrow> run_args \<Rightarrow> migrator \<Rightarrow> (exn + MigrationResult) \<times> migrator" where
  "migrate_all_data_steps w a m =
     (let m1 = (if resume_from_checkpoint (config m) then load_checkpoint m else m)
      in case calculate_total_records w a m1 of
           (Some err, m2) \<Rightarrow> (Inl err, m2)
         | (None, m2) \<Rightarrow>
             (case sources_loop w a (source_types (config m2)) m2 of
                (Some err, m3) \<Rightarrow> (Inl err, m3)
              | (None, m3) \<Rightarrow>
                  (let m4 = finalize_migration w m3
                   in (Inr \<lparr> m_success = True, m_progress = progress m4,
                             m_processing_time = run_t_end w - run_t_start w,
                             m_metadata = [(''migration_config'', PDict (config_dict (config m4))),
                                           (''completion_time'', PStr (now_iso w))] \<rparr>, m4))))"

definition migrate_all_data_body ::
  "mworld \<Rightarrow> run_args \<Rightarrow> migrator \<Rightarrow> (exn + MigrationResult) \<times> migrator" where
  "migrate_all_data_body w a m = with_LogContext (migrate_all_data_steps w a) m"

definition migrate_all_data :: "mworld \<Rightarrow> run_args \<Rightarrow> migrator \<Rightarrow> MigrationResult \<times> migrator" where
  "migrate_all_data w a m =
     (let m0 = m\<lparr>is_running := True, progress := (progress m)\<lparr>start_time := Some (now w)\<rparr>\<rparr>
      in case migrate_all_data_body w a m0 of
           (Inr result, m1) \<Rightarrow> (result, m1\<lparr>is_running := False\<rparr>)
         | (Inl err, m1) \<Rightarrow>
             (\<lparr> m_success = False, m_progress = progress m1,
                m_processing_time = run_t_end w - run_t_start w,
                m_metadata = [(''error'', PStr err)] \<rparr>, m1\<lparr>is_running := False\<rparr>))"

section \<open>Batch sizes as the specification states them\<close>

text \<open>
  Following the specification's words: N records with batch size B are processed in
  ceil(N/B) batches, all of size B except that the last may be smaller.
\<close>

definition chunk_sizes :: "nat \<Rightarrow> nat \<Rightarrow> nat list" where
  "chunk_sizes n b = replicate (n div b) b @ (if n mod b = 0 then [] else [n mod b])"

section \<open>Concrete inputs\<close>

text \<open>
  Vectors, provider and database behaviours, and migrator states used to instantiate the
  theorems below. \<^verbatim>\<open>sample_content\<close> is what \<^verbatim>\<open>_extract_analytics_content\<close> returns for
  \<^verbatim>\<open>sample_record\<close>; \<^verbatim>\<open>test_config\<close> is the configuration of the repository's migrator
  tests and \<^verbatim>\<open>new_migrator\<close> the state after \<^verbatim>\<open>VectorMigrator.__init__\<close>.
\<close>

definition w_if :: "bool \<Rightarrow> real \<Rightarrow> real" where
  "w_if c w = (if c then w else 0)"




definition env_fail :: env where
  "env_fail = \<lparr> t_start = 0, t_end = 1,
                 embed = (\<lambda>m t. Inl ''API Error''),
                 db_find_one = (\<lambda>k. Inr None),
                 db_insert = (\<lambda>d. None) \<rparr>"

definition env_ok :: env where
  "env_ok = \<lparr> t_start = 10, t_end = 12,
               embed = (\<lambda>m t. Inr [Fin (1 / 2), Fin (- (1 / 2))]),
               db_find_one = (\<lambda>k. Inr None),
               db_insert = (\<lambda>d. None) \<rparr>"

definition env_db_down :: env where
  "env_db_down = \<lparr> t_start = 3, t_end = 5,
               embed = (\<lambda>m t. Inr [Fin (1 / 2), Fin (- (1 / 2))]),
               db_find_one = (\<lambda>k. Inl ''connection refused''),
               db_insert = (\<lambda>d. Some ''connection refused'') \<rparr>"

definition world_fail_then_ok :: world where
  "world_fail_then_ok =
     \<lparr> md5_hex = (\<lambda>s. s),
       envs = (\<lambda>n. if n = 0 then env_fail else env_ok),
       config_batch_size = 100,
       batch_t_start = 0,
       batch_t_end = 20,
       schedule = (\<lambda>i. []) \<rparr>"

definition world_ok :: world where
  "world_ok = world_fail_then_ok \<lparr> envs := (\<lambda>n. env_ok) \<rparr>"

definition world_db_down :: world where
  "world_db_down = world_fail_then_ok \<lparr> envs := (\<lambda>n. env_db_down) \<rparr>"

definition world_down :: world where
  "world_down = world_fail_then_ok \<lparr> envs := (\<lambda>n. env_fail) \<rparr>"

definition gen_init :: gen_state where
  "gen_init = \<lparr> cache = Map.empty, n_calls = 0 \<rparr>"

definition env_by_text :: env where
  "env_by_text = \<lparr> t_start = 0, t_end = 1,
                    embed = (\<lambda>m t. if t = ''a'' then Inl ''API Error''
                                    else Inr [Fin (1 / 2), Fin (- (1 / 2))]),
                    db_find_one = (\<lambda>k. Inr None),
                    db_insert = (\<lambda>d. None) \<rparr>"

definition world_reordered :: world where
  "world_reordered =
     \<lparr> md5_hex = (\<lambda>s. s),
       envs = (\<lambda>n. env_by_text),
       config_batch_size = 100,
       batch_t_start = 0,
       batch_t_end = 20,
       schedule = (\<lambda>i. [1]) \<rparr>"

definition sample_json :: pyval where
  "sample_json = PDict [(''a'', PInt 1), (''b'', PList [PBool True, PNone, PDict []]), (''c'', PStr ''x'')]"

definition test_config :: MigrationConfig where
  "test_config =
     \<lparr> source_types = [ANALYTICS, SESSIONS], batch_size = 10, max_workers = 2,
       embedding_model = GEMINI, validate_data = True, optimize_embeddings_flag = True,
       backup_original = True, resume_from_checkpoint = True \<rparr>"

definition empty_progress :: MigrationProgress where
  "empty_progress =
     \<lparr> total_records = 0, processed_records = 0, successful_records = 0, failed_records = 0,
       skipped_records = 0, current_source = None, start_time = None,
       estimated_completion = None, errors = [] \<rparr>"

definition new_migrator :: "MigrationConfig \<Rightarrow> migrator" where
  "new_migrator c =
     \<lparr> config = c, progress = empty_progress, is_running = False, should_pause = False,
       checkpoint_file = None, embedding_generator = gen_init, vectordocuments = [],
       batch_trace = [] \<rparr>"

definition sample_record :: document where
  "sample_record = [(''_id'', PStr ''r1''), (''siteId'', PStr ''site1'')]"

definition sample_content :: string where
  "sample_content = ''Site ID: site1 | Total Visitors: 0 | Unique Visitors: 0 | Web3 Visitors: 0 | Wallets Connected: 0 | Total Page Views: 0''"

definition api_down_world :: mworld where
  "api_down_world =
     \<lparr> gen_world = world_down,
       find_documents = (\<lambda>c f. if c = ''analytics'' then Inr [sample_record] else Inr []),
       count_documents = (\<lambda>c f. Inr (if c = ''analytics'' then 1 else 0)),
       insert_vector_document = (\<lambda>d. None),
       extract_content = (\<lambda>dt d. Inr sample_content),
       now = 0, now_iso = ''2024-01-01T00:00:00'',
       run_t_start = 0, run_t_end = 1,
       disk_writable = True \<rparr>"

definition many_records_world :: mworld where
  "many_records_world =
     api_down_world\<lparr> gen_world := world_ok,
                      find_documents := (\<lambda>c f. if c = ''analytics''
                                                then Inr (replicate 23 sample_record) else Inr []),
                      count_documents := (\<lambda>c f. Inr (if c = ''analytics'' then 23 else 0)) \<rparr>"

definition no_args :: run_args where
  "no_args = \<lparr> site_ids = None, team_ids = None, start_date = None, end_date = None \<rparr>"

definition one_record_world :: mworld where
  "one_record_world = api_down_world\<lparr> gen_world := world_ok \<rparr>"

definition saved_progress :: MigrationProgress where
  "saved_progress =
     empty_progress\<lparr> total_records := 100, processed_records := 50, successful_records := 45,
                     current_source := Some ''analytics'' \<rparr>"

definition second_record :: document where
  "second_record = [(''_id'', PStr ''r2''), (''siteId'', PStr ''site1'')]"

definition flaky_world :: mworld where
  "flaky_world = api_down_world\<lparr> gen_world := world_fail_then_ok \<rparr>"

definition truncated_checkpoint :: "token list" where
  "truncated_checkpoint =
     [T_LBRACE, T_STR ''progress'', T_COLON,
        T_LBRACE, T_STR ''total_records'', T_COLON, T_INT 100, T_COMMA,
                  T_STR ''processed_records'', T_COLON, T_INT 50, T_COMMA,
                  T_STR ''successful_records'', T_COLON, T_INT 45, T_COMMA,
                  T_STR ''failed_records'', T_COLON, T_INT 0, T_COMMA,
                  T_STR ''current_source'', T_COLON, T_STR ''analytics'', T_RBRACE, T_COMMA,
      T_STR ''config'', T_COLON,
        T_LBRACE, T_STR ''source_types'', T_COLON, T_LBRACK]"

definition saving_migrator :: migrator where
  "saving_migrator = (new_migrator test_config)\<lparr>progress := saved_progress\<rparr>"

definition paused_checkpoint :: "token list" where
  "paused_checkpoint =
     [T_LBRACE, T_STR ''progress'', T_COLON,
        T_LBRACE, T_STR ''total_records'', T_COLON, T_INT 0, T_COMMA,
                  T_STR ''processed_records'', T_COLON, T_INT 0, T_COMMA,
                  T_STR ''successful_records'', T_COLON, T_INT 0, T_COMMA,
                  T_STR ''failed_records'', T_COLON, T_INT 0, T_COMMA,
                  T_STR ''current_source'', T_COLON, T_NULL, T_RBRACE, T_COMMA,
      T_STR ''config'', T_COLON,
        T_LBRACE, T_STR ''source_types'', T_COLON, T_LBRACK]"

definition paused_migrator :: migrator where
  "paused_migrator = pause_migration one_record_world (new_migrator test_config)"

section \<open>Properties of the quality validator\<close>

lemma validate_sum: "validate_embedding e t m =
   w_if (length e = get_expected_dimensions m) 0.3
 + w_if (\<not> list_ex isnan e \<and> \<not> list_ex isinf e) 0.2
 + w_if (fl_less (Fin 0.1) (linalg_norm e) \<and> fl_less (linalg_norm e) (Fin 10.0)) 0.2
 + w_if (fl_less (Fin 0.001) (np_var e)) 0.15
 + w_if (length t > 10) 0.15"
  by (simp add: validate_embedding_def w_if_def Let_def)




lemma sqrt_less_iff_sq: "0 \<le> s \<Longrightarrow> 0 < b \<Longrightarrow> (sqrt s < b) = (s < b * b)"
  by (metis real_sqrt_less_iff real_sqrt_mult_self abs_of_pos less_imp_le real_sqrt_abs2 real_sqrt_mult)

lemma less_sqrt_iff_sq: "0 \<le> s \<Longrightarrow> 0 \<le> a \<Longrightarrow> (a < sqrt s) = (a * a < s)"
  by (metis real_sqrt_less_iff real_sqrt_mult_self abs_of_nonneg  real_sqrt_abs2 real_sqrt_mult)

lemma sum_sq_nonneg: "0 \<le> sum_sq xs"
  by (induction xs) (simp_all add: sum_sq_def)






lemma sum_sq_shift:
  "sum_list (map (\<lambda>x. (x - c) * (x - c)) xs)
     = sum_sq xs - 2 * c * sum_list xs + real (length xs) * (c * c)"
  by (induction xs) (simp_all add: sum_sq_def algebra_simps)

lemma sum_sq_ge_centered:
  assumes "xs \<noteq> []"
  shows "sum_list (map (\<lambda>x. (x - np_mean xs) * (x - np_mean xs)) xs) \<le> sum_sq xs"
proof -
  let ?n = "real (length xs)"
  let ?mu = "np_mean xs"
  have n: "0 < ?n" using assms by simp
  have s: "sum_list xs = ?n * ?mu" using n by (simp add: np_mean_def)
  have "sum_list (map (\<lambda>x. (x - ?mu) * (x - ?mu)) xs)
          = sum_sq xs - 2 * ?mu * sum_list xs + ?n * (?mu * ?mu)"
    by (rule sum_sq_shift)
  also have "\<dots> = sum_sq xs - 2 * ?mu * (?n * ?mu) + ?n * (?mu * ?mu)"
    by (simp only: s[symmetric])
  also have "\<dots> = sum_sq xs - ?n * (?mu * ?mu)"
    by (simp add: algebra_simps)
  finally have "sum_list (map (\<lambda>x. (x - ?mu) * (x - ?mu)) xs) = sum_sq xs - ?n * (?mu * ?mu)" .
  moreover have "0 \<le> ?n * (?mu * ?mu)" by simp
  ultimately show ?thesis by linarith
qed

lemma np_var_FinD:
  assumes "np_var e = Fin v"
  shows "e \<noteq> []" and "\<not> list_ex isnan e" and "\<not> list_ex isinf e"
    and "real (length e) * v \<le> sum_sq (map fin_val e)"
proof -
  have ne: "e \<noteq> [] \<and> \<not> list_ex isnan e \<and> \<not> list_ex isinf e"
    using assms by (auto simp: np_var_def split: if_splits)
  then show "e \<noteq> []" by simp
  from ne show "\<not> list_ex isnan e" and "\<not> list_ex isinf e"
    by blast+
  let ?xs = "map fin_val e"
  have v: "v = np_mean (map (\<lambda>x. (x - np_mean ?xs) * (x - np_mean ?xs)) ?xs)"
    using assms ne by (simp add: np_var_def Let_def)
  have len: "0 < real (length e)" using ne by simp
  have "real (length e) * v = sum_list (map (\<lambda>x. (x - np_mean ?xs) * (x - np_mean ?xs)) ?xs)"
    using len by (simp add: v np_mean_def[of "map _ _"])
  also have "\<dots> \<le> sum_sq ?xs"
    using sum_sq_ge_centered[of ?xs] ne by simp
  finally show "real (length e) * v \<le> sum_sq (map fin_val e)" .
qed












text \<open>
  A vector of norm 1 with at least 1000 components has variance at most 0.001, so with the
  1536 components of the default model the variance check fails and the score is at most
  0.85: the reading of the example with unit norm in place of unit variance does not score
  above 0.85 either.
\<close>

lemma unit_norm_variance_check:
  assumes "linalg_norm e = Fin 1" and "1000 \<le> length e"
  shows "\<not> fl_less (Fin 0.001) (np_var e)"
proof -
  have fin: "\<not> list_ex isnan e" "\<not> list_ex isinf e"
    using assms(1) by (auto simp: linalg_norm_def split: if_splits)
  have ne: "e \<noteq> []" using assms(2) by auto
  have "sqrt (sum_sq (map fin_val e)) = 1"
    using assms(1) fin by (simp add: linalg_norm_def)
  then have ss: "sum_sq (map fin_val e) = 1" by simp
  obtain v where v: "np_var e = Fin v"
    using fin ne by (simp add: np_var_def Let_def)
  have "real (length e) * v \<le> 1"
    using np_var_FinD(4)[OF v] ss by simp
  moreover have "1000 \<le> real (length e)" using assms(2) by simp
  ultimately have "1000 * v \<le> 1"
  proof (cases "0 \<le> v")
    case True
    assume a: "real (length e) * v \<le> 1" and b: "1000 \<le> real (length e)"
    have "1000 * v \<le> real (length e) * v" using b True by (rule mult_right_mono)
    then show ?thesis using a by linarith
  next
    case False
    then show ?thesis by linarith
  qed
  then have "\<not> 0.001 < v" by simp
  then show ?thesis using v by simp
qed

lemma unit_norm_score_gemini:
  assumes "linalg_norm e = Fin 1"
  shows "validate_embedding e t GEMINI \<le> 0.85"
proof (cases "length e = get_expected_dimensions GEMINI")
  case True
  then have "1000 \<le> length e" by (simp add: get_expected_dimensions_def)
  then have "\<not> fl_less (Fin 0.001) (np_var e)"
    using unit_norm_variance_check[OF assms] by simp
  then show ?thesis by (simp add: validate_sum w_if_def)
next
  case False
  then show ?thesis by (simp add: validate_sum w_if_def)
qed

section \<open>Properties of the optimizer\<close>


lemma sum_sq_zero_iff: "(sum_sq v = 0) = list_all (\<lambda>x. x = 0) v"
proof (induction v)
  case Nil
  then show ?case by (simp add: sum_sq_def)
next
  case (Cons x v)
  have "0 \<le> sum_sq v" by (rule sum_sq_nonneg)
  moreover have "sum_sq (x # v) = x * x + sum_sq v" by (simp add: sum_sq_def)
  moreover have "0 \<le> x * x" by simp
  ultimately have "(sum_sq (x # v) = 0) = (x * x = 0 \<and> sum_sq v = 0)"
    by (metis add_nonneg_eq_0_iff)
  then show ?case using Cons by simp
qed

lemma l2_norm_pos_iff: "(0 < l2_norm v) = (\<not> list_all (\<lambda>x. x = 0) v)"
proof -
  have "(0 < l2_norm v) = (0 < sum_sq v)" by (simp add: l2_norm_def)
  also have "\<dots> = (sum_sq v \<noteq> 0)" using sum_sq_nonneg[of v] by linarith
  finally show ?thesis by (simp add: sum_sq_zero_iff)
qed


lemma l2_norm_3_4: "l2_norm [3, 4] = 5"
proof -
  have "sum_sq [3, 4] = 5 * 5" by (simp add: sum_sq_def)
  then show ?thesis unfolding l2_norm_def by (simp only: real_sqrt_mult_self) simp
qed

lemma float64_bounds:
  "0 < float64_underflow" "float64_underflow < 1" "1 < float64_overflow"
  "float64_overflow * float64_underflow \<le> 1"
  by (simp_all add: float64_underflow_def float64_overflow_def)











lemma l2_norm_3_4_fl: "l2_norm (map fin_val [Fin 3, Fin 4]) = 5"
  by (simp add: l2_norm_3_4)


lemma float64_zero: "float64 0 = Fin 0"
  using float64_bounds(1,3) by (simp add: float64_def)


lemma normalize_underflow:
  assumes "b * b \<le> float64_underflow"
  shows "linalg_norm_float64 [Fin b, Fin b] = Fin 0
         \<and> normalize_embedding [Fin b, Fin b] = [Fin b, Fin b]"
proof -
  have "b * b < float64_overflow" using assms float64_bounds(2,3) by linarith
  moreover have "- float64_overflow < b * b"
    using float64_bounds(3) zero_le_square[of b] by linarith
  moreover have "\<bar>b * b\<bar> \<le> float64_underflow" using assms by simp
  ultimately have sq: "fl_mul (Fin b) (Fin b) = Fin 0" by (simp add: float64_def)
  have n: "linalg_norm_float64 [Fin b, Fin b] = Fin 0"
    by (simp add: linalg_norm_float64_def fl_sum_def sq float64_zero del: fl_mul.simps)
  show ?thesis by (simp add: normalize_embedding_def n)
qed


text \<open>
  Further vectors that are not scaled to norm 1: with both components \<^verbatim>\<open>1e-200\<close> the
  squares underflow, the computed norm is 0 and the vector is returned as it is; with an
  infinite component the norm is infinite and that component becomes NaN.
\<close>

lemma normalize_underflow_example:
  "linalg_norm_float64 [Fin (1 / 10 ^ 200), Fin (1 / 10 ^ 200)] = Fin 0
   \<and> 0 < l2_norm [1 / 10 ^ 200, 1 / 10 ^ 200]
   \<and> normalize_embedding [Fin (1 / 10 ^ 200), Fin (1 / 10 ^ 200)]
       = [Fin (1 / 10 ^ 200), Fin (1 / 10 ^ 200)]"
proof -
  have b: "1 / 10 ^ 200 * (1 / 10 ^ 200) \<le> float64_underflow"
    by (simp add: float64_underflow_def)
  have p: "0 < l2_norm [1 / 10 ^ 200, 1 / 10 ^ 200]"
    by (simp add: l2_norm_pos_iff)
  show ?thesis using normalize_underflow[OF b] p by simp
qed

lemma normalize_infinite:
  "linalg_norm_float64 [PInf, Fin 1] = PInf
   \<and> normalize_embedding [PInf, Fin 1] = [NaN, Fin 0]"
proof -
  have o: "float64 1 = Fin 1"
    using float64_bounds by (simp add: float64_def)
  have n: "linalg_norm_float64 [PInf, Fin 1] = PInf"
    by (simp add: linalg_norm_float64_def fl_sum_def o)
  show ?thesis unfolding n by (simp add: normalize_embedding_def n)
qed

section \<open>Properties of the embedding generator\<close>

lemma failed_result_sel [simp]:
  "success (failed_result msg t) = False"
  "embedding (failed_result msg t) = None"
  "error (failed_result msg t) = Some msg"
  "processing_time (failed_result msg t) = t"
  by (simp_all add: failed_result_def)

text \<open>
  C5. \<^verbatim>\<open>generate_embedding\<close> returns a result on every input: the model is a total
  function whose only result type is \<^verbatim>\<open>EmbeddingResult\<close>. Whenever the body raises with
  message \<^verbatim>\<open>msg\<close>, the result is the failed result with \<^verbatim>\<open>success = False\<close>, the
  message in \<^verbatim>\<open>error\<close> and the elapsed time in \<^verbatim>\<open>processing_time\<close>; in particular
  when the provider raises after a cache miss (or with the cache switched off), and when the
  cache lookup in the database raises.
\<close>

theorem generate_embedding_never_raises:
  "(generate_embedding_body w (envs w (n_calls s)) text model context use_cache
        (s\<lparr>n_calls := Suc (n_calls s)\<rparr>) = (Inl msg, s1)
      \<longrightarrow> generate_embedding w text model context use_cache s
            = (failed_result msg
                 (Some (t_end (envs w (n_calls s)) - t_start (envs w (n_calls s)))), s1))
   \<and> ((use_cache \<longrightarrow> cache s (generate_cache_key w text model) = None
                    \<and> db_find_one (envs w (n_calls s)) (generate_cache_key w text model) = Inr None)
        \<and> provider_dispatch (envs w (n_calls s)) model (preprocess_text text context) = Inl msg
      \<longrightarrow> success (fst (generate_embedding w text model context use_cache s)) = False
          \<and> error (fst (generate_embedding w text model context use_cache s)) = Some msg
          \<and> processing_time (fst (generate_embedding w text model context use_cache s))
              = Some (t_end (envs w (n_calls s)) - t_start (envs w (n_calls s))))
   \<and> (use_cache \<and> cache s (generate_cache_key w text model) = None
        \<and> db_find_one (envs w (n_calls s)) (generate_cache_key w text model) = Inl msg
      \<longrightarrow> success (fst (generate_embedding w text model context use_cache s)) = False
          \<and> error (fst (generate_embedding w text model context use_cache s)) = Some msg
          \<and> processing_time (fst (generate_embedding w text model context use_cache s))
              = Some (t_end (envs w (n_calls s)) - t_start (envs w (n_calls s))))"
proof (intro conjI impI)
  assume "generate_embedding_body w (envs w (n_calls s)) text model context use_cache
        (s\<lparr>n_calls := Suc (n_calls s)\<rparr>) = (Inl msg, s1)"
  then show "generate_embedding w text model context use_cache s
            = (failed_result msg
                 (Some (t_end (envs w (n_calls s)) - t_start (envs w (n_calls s)))), s1)"
    by (simp add: generate_embedding_def Let_def)
next
  assume a: "(use_cache \<longrightarrow> cache s (generate_cache_key w text model) = None
                    \<and> db_find_one (envs w (n_calls s)) (generate_cache_key w text model) = Inr None)
        \<and> provider_dispatch (envs w (n_calls s)) model (preprocess_text text context) = Inl msg"
  have b: "generate_embedding_body w (envs w (n_calls s)) text model context use_cache
        (s\<lparr>n_calls := Suc (n_calls s)\<rparr>) = (Inl msg, s\<lparr>n_calls := Suc (n_calls s)\<rparr>)"
    using a by (cases use_cache)
      (simp_all add: generate_embedding_body_def get_cached_embedding_def Let_def)
  show "success (fst (generate_embedding w text model context use_cache s)) = False"
    and "error (fst (generate_embedding w text model context use_cache s)) = Some msg"
    and "processing_time (fst (generate_embedding w text model context use_cache s))
              = Some (t_end (envs w (n_calls s)) - t_start (envs w (n_calls s)))"
    using b by (simp_all add: generate_embedding_def Let_def)
next
  assume a: "use_cache \<and> cache s (generate_cache_key w text model) = None
        \<and> db_find_one (envs w (n_calls s)) (generate_cache_key w text model) = Inl msg"
  have b: "generate_embedding_body w (envs w (n_calls s)) text model context use_cache
        (s\<lparr>n_calls := Suc (n_calls s)\<rparr>) = (Inl msg, s\<lparr>n_calls := Suc (n_calls s)\<rparr>)"
    using a by (simp add: generate_embedding_body_def get_cached_embedding_def Let_def)
  show "success (fst (generate_embedding w text model context use_cache s)) = False"
    and "error (fst (generate_embedding w text model context use_cache s)) = Some msg"
    and "processing_time (fst (generate_embedding w text model context use_cache s))
              = Some (t_end (envs w (n_calls s)) - t_start (envs w (n_calls s)))"
    using b by (simp_all add: generate_embedding_def Let_def)
qed

text \<open>A provider that raises, and a database that refuses the connection.\<close>

theorem generate_embedding_never_raises_witness:
  "provider_dispatch (envs world_fail_then_ok (n_calls gen_init)) GEMINI
       (preprocess_text ''hello'' None) = Inl ''API Error''
   \<and> success (fst (generate_embedding world_fail_then_ok ''hello'' GEMINI None True gen_init)) = False
   \<and> error (fst (generate_embedding world_fail_then_ok ''hello'' GEMINI None True gen_init))
       = Some ''API Error''
   \<and> processing_time (fst (generate_embedding world_fail_then_ok ''hello'' GEMINI None True gen_init))
       = Some 1
   \<and> db_find_one (envs world_db_down (n_calls gen_init))
        (generate_cache_key world_db_down ''hello'' GEMINI) = Inl ''connection refused''
   \<and> error (fst (generate_embedding world_db_down ''hello'' GEMINI None True gen_init))
       = Some ''connection refused''
   \<and> processing_time (fst (generate_embedding world_db_down ''hello'' GEMINI None True gen_init))
       = Some 2"
proof -
  have miss: "cache gen_init (generate_cache_key world_fail_then_ok ''hello'' GEMINI) = None"
    "cache gen_init (generate_cache_key world_db_down ''hello'' GEMINI) = None"
    by (simp_all add: gen_init_def)
  have dbn: "db_find_one (envs world_fail_then_ok (n_calls gen_init))
               (generate_cache_key world_fail_then_ok ''hello'' GEMINI) = Inr None"
    by (simp add: world_fail_then_ok_def gen_init_def env_fail_def)
  have pf: "provider_dispatch (envs world_fail_then_ok (n_calls gen_init)) GEMINI
       (preprocess_text ''hello'' None) = Inl ''API Error''"
    by (simp add: provider_dispatch_def world_fail_then_ok_def gen_init_def env_fail_def)
  have dbf: "db_find_one (envs world_db_down (n_calls gen_init))
        (generate_cache_key world_db_down ''hello'' GEMINI) = Inl ''connection refused''"
    by (simp add: world_db_down_def world_fail_then_ok_def env_db_down_def)
  have t1: "t_end (envs world_fail_then_ok (n_calls gen_init))
             - t_start (envs world_fail_then_ok (n_calls gen_init)) = 1"
    by (simp add: world_fail_then_ok_def gen_init_def env_fail_def)
  have t2: "t_end (envs world_db_down (n_calls gen_init))
             - t_start (envs world_db_down (n_calls gen_init)) = 2"
    by (simp add: world_db_down_def world_fail_then_ok_def env_db_down_def)
  show ?thesis
    using generate_embedding_never_raises[of world_fail_then_ok gen_init "''hello''" GEMINI
        None True "''API Error''"]
      generate_embedding_never_raises[of world_db_down gen_init "''hello''" GEMINI
        None True "''connection refused''"]
      miss dbn pf dbf t1 t2
    by simp
qed

lemma body_cache_after:
  assumes "generate_embedding_body w e text model c True s0 = (Inr r, s1)"
  shows "cache s1 (generate_cache_key w text model) = Some r \<and> n_calls s1 = n_calls s0"
  using assms
  by (auto simp: generate_embedding_body_def get_cached_embedding_def cache_embedding_def Let_def
      split: option.splits sum.splits if_splits prod.splits)

lemma body_cache_hit:
  assumes "cache s0 (generate_cache_key w text model) = Some r"
  shows "generate_embedding_body w e text model c True s0 = (Inr r, s0)"
  using assms by (simp add: generate_embedding_body_def get_cached_embedding_def Let_def)

text \<open>
  C9, as amended. If a call of \<^verbatim>\<open>generate_embedding\<close> with \<^verbatim>\<open>use_cache = True\<close>
  succeeds, the next call for the same text and model returns the very same result, whatever
  the providers, the database and the clock do during that call: the vector is identical and
  the processing time is equal, hence not larger.
\<close>

theorem cache_idempotence:
  assumes "generate_embedding w text model c1 True s = (r1, s1)"
    and "success r1"
    and "md5_hex w2 = md5_hex w"
  shows "generate_embedding w2 text model c2 True s1 = (r1, s1\<lparr>n_calls := Suc (n_calls s1)\<rparr>)
         \<and> embedding (fst (generate_embedding w2 text model c2 True s1)) = embedding r1
         \<and> processing_time (fst (generate_embedding w2 text model c2 True s1)) = processing_time r1"
proof -
  let ?e = "envs w (n_calls s)"
  let ?s0 = "s\<lparr>n_calls := Suc (n_calls s)\<rparr>"
  obtain b sb where b: "generate_embedding_body w ?e text model c1 True ?s0 = (b, sb)"
    by (cases "generate_embedding_body w ?e text model c1 True ?s0") blast
  have "b = Inr r1 \<and> sb = s1"
  proof (cases b)
    case (Inl err)
    then have "r1 = failed_result err (Some (t_end ?e - t_start ?e))"
      using assms(1) b by (simp add: generate_embedding_def Let_def)
    then show ?thesis using assms(2) by simp
  next
    case (Inr r)
    then show ?thesis using assms(1) b by (simp add: generate_embedding_def Let_def)
  qed
  then have "cache s1 (generate_cache_key w text model) = Some r1"
    using body_cache_after b by blast
  moreover have "generate_cache_key w2 text model = generate_cache_key w text model"
    using assms(3) by (simp add: generate_cache_key_def)
  ultimately have "cache (s1\<lparr>n_calls := Suc (n_calls s1)\<rparr>) (generate_cache_key w2 text model) = Some r1"
    by simp
  then have "generate_embedding_body w2 (envs w2 (n_calls s1)) text model c2 True
               (s1\<lparr>n_calls := Suc (n_calls s1)\<rparr>) = (Inr r1, s1\<lparr>n_calls := Suc (n_calls s1)\<rparr>)"
    by (rule body_cache_hit)
  then have "generate_embedding w2 text model c2 True s1 = (r1, s1\<lparr>n_calls := Suc (n_calls s1)\<rparr>)"
    by (simp add: generate_embedding_def Let_def)
  then show ?thesis by simp
qed

lemma world_ok_first:
  "success (fst (generate_embedding world_ok ''hello'' GEMINI None True gen_init))
   \<and> embedding (fst (generate_embedding world_ok ''hello'' GEMINI None True gen_init))
       = Some [Fin (1 / 2), Fin (- (1 / 2))]
   \<and> processing_time (fst (generate_embedding world_ok ''hello'' GEMINI None True gen_init)) = Some 2"
  by (simp add: generate_embedding_def generate_embedding_body_def get_cached_embedding_def
      cache_embedding_def provider_dispatch_def world_ok_def world_fail_then_ok_def env_ok_def
      gen_init_def Let_def)

text \<open>A successful first call, followed by a call while the provider is down.\<close>

theorem cache_idempotence_witness:
  "success (fst (generate_embedding world_ok ''hello'' GEMINI None True gen_init))
   \<and> md5_hex world_down = md5_hex world_ok
   \<and> embedding (fst (generate_embedding world_down ''hello'' GEMINI None True
        (snd (generate_embedding world_ok ''hello'' GEMINI None True gen_init))))
       = Some [Fin (1 / 2), Fin (- (1 / 2))]
   \<and> processing_time (fst (generate_embedding world_down ''hello'' GEMINI None True
        (snd (generate_embedding world_ok ''hello'' GEMINI None True gen_init))))
       = Some 2"
proof -
  have h1: "generate_embedding world_ok ''hello'' GEMINI None True gen_init
              = (fst (generate_embedding world_ok ''hello'' GEMINI None True gen_init),
                 snd (generate_embedding world_ok ''hello'' GEMINI None True gen_init))"
    by simp
  have h2: "success (fst (generate_embedding world_ok ''hello'' GEMINI None True gen_init))"
    using world_ok_first by simp
  have h3: "md5_hex world_down = md5_hex world_ok"
    by (simp add: world_down_def world_ok_def)
  show ?thesis
    using cache_idempotence[OF h1 h2 h3, of None] world_ok_first h3 by simp
qed

lemma first_call_fails:
  "generate_embedding world_fail_then_ok ''hello'' GEMINI None True gen_init
     = (failed_result ''API Error'' (Some 1), gen_init\<lparr>n_calls := Suc 0\<rparr>)"
  by (simp add: generate_embedding_def generate_embedding_body_def get_cached_embedding_def
      provider_dispatch_def world_fail_then_ok_def env_fail_def gen_init_def Let_def)

lemma second_call_ok:
  "fst (generate_embedding world_fail_then_ok ''hello'' GEMINI None True (gen_init\<lparr>n_calls := Suc 0\<rparr>))
     = \<lparr> success = True, embedding = Some [Fin (1 / 2), Fin (- (1 / 2))],
         model_used = Some ''gemini'', dimensions = Some 2,
         quality_score = Some (validate_embedding [Fin (1 / 2), Fin (- (1 / 2))] ''hello'' GEMINI),
         processing_time = Some 2,
         metadata = Some [(''text_length'', PInt 5), (''processed_text_length'', PInt 5),
                          (''context'', PNone)],
         error = None \<rparr>"
  by (simp add: generate_embedding_def generate_embedding_body_def get_cached_embedding_def
      cache_embedding_def provider_dispatch_def world_fail_then_ok_def env_ok_def gen_init_def
      preprocess_text_def strip_def is_space_def model_value_def context_val_def Let_def)

text \<open>
  A first call during which the provider raises is not cached: it returns no vector after one
  second, and the second call returns a vector after two seconds.
\<close>

theorem cache_idempotence_counterexample:
  "embedding (fst (generate_embedding world_fail_then_ok ''hello'' GEMINI None True gen_init)) = None
   \<and> embedding (fst (generate_embedding world_fail_then_ok ''hello'' GEMINI None True
         (snd (generate_embedding world_fail_then_ok ''hello'' GEMINI None True gen_init))))
       = Some [Fin (1 / 2), Fin (- (1 / 2))]
   \<and> processing_time (fst (generate_embedding world_fail_then_ok ''hello'' GEMINI None True gen_init))
       = Some 1
   \<and> processing_time (fst (generate_embedding world_fail_then_ok ''hello'' GEMINI None True
         (snd (generate_embedding world_fail_then_ok ''hello'' GEMINI None True gen_init))))
       = Some 2"
  by (simp add: first_call_fails second_call_ok)

section \<open>Properties of batched generation\<close>

lemma gen_a: "generate_embedding world_reordered ''a'' GEMINI None False s
   = (failed_result ''API Error'' (Some 1), s\<lparr>n_calls := Suc (n_calls s)\<rparr>)"
  by (simp add: generate_embedding_def generate_embedding_body_def provider_dispatch_def
      world_reordered_def env_by_text_def preprocess_text_def strip_def is_space_def Let_def)

lemma gen_b: "generate_embedding world_reordered ''b'' GEMINI None False s
   = (\<lparr> success = True, embedding = Some [Fin (1 / 2), Fin (- (1 / 2))],
         model_used = Some ''gemini'', dimensions = Some 2,
         quality_score = Some (validate_embedding [Fin (1 / 2), Fin (- (1 / 2))] ''b'' GEMINI),
         processing_time = Some 1,
         metadata = Some [(''text_length'', PInt 1), (''processed_text_length'', PInt 1),
                          (''context'', PNone)],
         error = None \<rparr>, s\<lparr>n_calls := Suc (n_calls s)\<rparr>)"
  by (simp add: generate_embedding_def generate_embedding_body_def provider_dispatch_def
      world_reordered_def env_by_text_def preprocess_text_def strip_def is_space_def
      model_value_def context_val_def Let_def)

lemma process_batch_reordered:
  "fst (process_batch world_reordered [1] [''a'', ''b''] GEMINI None False 4 s)
     = Inr [fst (generate_embedding world_reordered ''b'' GEMINI None False s),
            fst (generate_embedding world_reordered ''a'' GEMINI None False s)]"
  by (simp add: process_batch_def text_context_at_def gen_a gen_b Let_def)

lemma wr_sel [simp]:
  "schedule world_reordered i = [1]"
  "config_batch_size world_reordered = 100"
  "batch_t_start world_reordered = 0"
  "batch_t_end world_reordered = 20"
  by (simp_all add: world_reordered_def)

lemma small_vec_norm: "linalg_norm [Fin (1 / 2), Fin (- (1 / 2))] = Fin (sqrt (1 / 2))"
  by (simp add: linalg_norm_def sum_sq_def)

lemma small_vec_var: "np_var [Fin (1 / 2), Fin (- (1 / 2))] = Fin (1 / 4)"
  by (simp add: np_var_def np_mean_def Let_def)

lemma small_vec_quality:
  "validate_embedding [Fin (1 / 2), Fin (- (1 / 2))] ''b'' GEMINI = 55 / 100"
proof -
  have a: "(1 / 10 :: real) < sqrt (1 / 2)"
    by (subst less_sqrt_iff_sq) simp_all
  have b: "sqrt (1 / 2) < (10 :: real)"
    by (subst sqrt_less_iff_sq) simp_all
  have "fl_less (Fin 0.1) (Fin (sqrt (1 / 2))) \<and> fl_less (Fin (sqrt (1 / 2))) (Fin 10.0)"
    using a b by simp
  then show ?thesis
    unfolding validate_sum small_vec_norm small_vec_var
    by (simp add: w_if_def get_expected_dimensions_def)
qed

lemma batch_run:
  "fst (generate_batch_embeddings world_reordered [''a'', ''b''] GEMINI None None False 4 gen_init)
     = \<lparr> b_success = True,
         b_embeddings = Some [Some [Fin (1 / 2), Fin (- (1 / 2))], None],
         b_failed_indices = Some [1],
         b_total_processed = 2,
         b_processing_time = Some 20,
         b_quality_scores = Some [Some (55 / 100), Some 0],
         b_metadata = Some \<lparr> successful_count = 1, failed_count = 1,
                                 average_quality = Fin (55 / 100),
                                 bm_model_used = ''gemini'', bm_batch_size = 100 \<rparr>,
         b_errors = Some [Some ''API Error''] \<rparr>"
  by (simp add: generate_batch_embeddings_def generate_batch_embeddings_body_def
      effective_batch_size_def batch_loop.simps process_batch_def text_context_at_def
      slice_context_def gen_a gen_b average_quality_of_def np_mean_fl_def np_mean_def
      model_value_def small_vec_quality Let_def)

text \<open>
  C1 at a failing input. Two texts in one batch, the provider raising on the first text
  \<^verbatim>\<open>a\<close> and answering for the second text \<^verbatim>\<open>b\<close>; the future of \<^verbatim>\<open>b\<close> completes first.
  The batch result then holds the vector of \<^verbatim>\<open>b\<close> at position 0 and \<^verbatim>\<open>None\<close> at
  position 1, and reports index 1 as failed, although text 0 is the one that failed.
\<close>

theorem batch_order_not_preserved:
  "b_embeddings (fst (generate_batch_embeddings world_reordered [''a'', ''b''] GEMINI None None
                        False 4 gen_init))
     = Some [Some [Fin (1 / 2), Fin (- (1 / 2))], None]
   \<and> b_failed_indices (fst (generate_batch_embeddings world_reordered [''a'', ''b''] GEMINI None
                        None False 4 gen_init))
     = Some [1]
   \<and> embedding (fst (generate_embedding world_reordered ''a'' GEMINI None False gen_init)) = None
   \<and> embedding (fst (generate_embedding world_reordered ''b'' GEMINI None False gen_init))
     = Some [Fin (1 / 2), Fin (- (1 / 2))]"
  by (simp add: batch_run gen_a gen_b)

text \<open>
  What holds for every completion order: the results of a batch are a permutation of the
  futures' results, and the batch result marks exactly the positions listed in
  \<^verbatim>\<open>failed_indices\<close> with \<^verbatim>\<open>None\<close>, provided every successful result in the cache
  carries a vector (true of the empty cache and kept by every call).
\<close>

lemma as_completed_set_length:
  "set (as_completed picks fs) = set fs \<and> length (as_completed picks fs) = length fs"
proof (induction picks fs rule: as_completed.induct)
  case (1 picks)
  then show ?case by simp
next
  case (2 f fs)
  then show ?case by simp
next
  case (3 p picks f fs)
  let ?xs = "f # fs"
  let ?k = "p mod length ?xs"
  have k: "?k < length ?xs" by simp
  have ih: "set (as_completed picks (take ?k ?xs @ drop (Suc ?k) ?xs))
              = set (take ?k ?xs @ drop (Suc ?k) ?xs)
            \<and> length (as_completed picks (take ?k ?xs @ drop (Suc ?k) ?xs))
              = length (take ?k ?xs @ drop (Suc ?k) ?xs)"
    using "3.IH"[OF refl] .
  have split: "?xs = take ?k ?xs @ ?xs ! ?k # drop (Suc ?k) ?xs"
    using k by (rule id_take_nth_drop)
  have s: "set ?xs = insert (?xs ! ?k) (set (take ?k ?xs @ drop (Suc ?k) ?xs))"
  proof -
    have "set ?xs = set (take ?k ?xs @ ?xs ! ?k # drop (Suc ?k) ?xs)"
      using split by simp
    then show ?thesis by simp
  qed
  have l: "length ?xs = Suc (length (take ?k ?xs @ drop (Suc ?k) ?xs))"
  proof -
    have "length ?xs = length (take ?k ?xs @ ?xs ! ?k # drop (Suc ?k) ?xs)"
      using split by simp
    then show ?thesis by simp
  qed
  have unf: "as_completed (p # picks) ?xs
               = ?xs ! ?k # as_completed picks (take ?k ?xs @ drop (Suc ?k) ?xs)"
    by (simp add: Let_def)
  show ?case unfolding unf using ih s l by simp
qed

lemma generate_embedding_good:
  assumes "\<And>k r. cache s k = Some r \<Longrightarrow> success r \<Longrightarrow> embedding r \<noteq> None"
  shows "(success (fst (generate_embedding w text model ctx uc s))
            \<longrightarrow> embedding (fst (generate_embedding w text model ctx uc s)) \<noteq> None)
         \<and> (\<forall>k r. cache (snd (generate_embedding w text model ctx uc s)) k = Some r
                \<longrightarrow> success r \<longrightarrow> embedding r \<noteq> None)"
  using assms
  by (auto simp: generate_embedding_def generate_embedding_body_def get_cached_embedding_def
      cache_embedding_def failed_result_def Let_def
      split: option.splits sum.splits if_splits prod.splits)

lemma submit_all_good:
  assumes "\<And>k r. cache s k = Some r \<Longrightarrow> success r \<Longrightarrow> embedding r \<noteq> None"
    and "submit_all w texts model cx uc i s = (Inr rs, s1)"
  shows "(\<forall>r \<in> set rs. success r \<longrightarrow> embedding r \<noteq> None)
         \<and> length rs = length texts
         \<and> (\<forall>k r. cache s1 k = Some r \<longrightarrow> success r \<longrightarrow> embedding r \<noteq> None)"
  using assms
proof (induction texts arbitrary: i s rs s1)
  case Nil
  then show ?case by auto
next
  case (Cons t0 rest)
  obtain tc where tc: "text_context_at cx i = Inr tc"
    using Cons.prems(2) by (cases "text_context_at cx i") simp_all
  obtain r sa where g: "generate_embedding w t0 model tc uc s = (r, sa)"
    by (cases "generate_embedding w t0 model tc uc s") blast
  obtain rs' where rest: "submit_all w rest model cx uc (Suc i) sa = (Inr rs', s1)"
    and rs: "rs = r # rs'"
    using Cons.prems(2) tc g
    by (cases "submit_all w rest model cx uc (Suc i) sa")
       (auto split: sum.splits)
  have good: "(success r \<longrightarrow> embedding r \<noteq> None)
              \<and> (\<forall>k r. cache sa k = Some r \<longrightarrow> success r \<longrightarrow> embedding r \<noteq> None)"
    using generate_embedding_good[of s w t0 model tc uc, OF Cons.prems(1)] g by simp
  then have c: "\<And>k r. cache sa k = Some r \<Longrightarrow> success r \<Longrightarrow> embedding r \<noteq> None"
    by blast
  have ih: "(\<forall>r \<in> set rs'. success r \<longrightarrow> embedding r \<noteq> None)
         \<and> length rs' = length rest
         \<and> (\<forall>k r. cache s1 k = Some r \<longrightarrow> success r \<longrightarrow> embedding r \<noteq> None)"
    using Cons.IH[OF c rest] .
  show ?case using ih good rs by simp
qed

lemma process_batch_good:
  assumes "\<And>k r. cache s k = Some r \<Longrightarrow> success r \<Longrightarrow> embedding r \<noteq> None"
    and "process_batch w picks texts model cx uc mw s = (Inr rs, s1)"
  shows "(\<forall>r \<in> set rs. success r \<longrightarrow> embedding r \<noteq> None)
         \<and> length rs = length texts
         \<and> (\<forall>k r. cache s1 k = Some r \<longrightarrow> success r \<longrightarrow> embedding r \<noteq> None)"
proof -
  obtain fs where sub: "submit_all w texts model cx uc 0 s = (Inr fs, s1)"
    and rs: "rs = as_completed picks fs"
    using assms(2)
    by (cases "submit_all w texts model cx uc 0 s")
       (auto simp: process_batch_def split: if_splits sum.splits)
  have "(\<forall>r \<in> set fs. success r \<longrightarrow> embedding r \<noteq> None)
         \<and> length fs = length texts
         \<and> (\<forall>k r. cache s1 k = Some r \<longrightarrow> success r \<longrightarrow> embedding r \<noteq> None)"
    using submit_all_good[OF assms(1) sub] .
  then show ?thesis using rs as_completed_set_length[of picks fs] by simp
qed

lemma collect_results_inv:
  assumes "length (acc_embeddings acc) = i + j"
    and "\<forall>k < i + j. (acc_embeddings acc ! k = None) = (k \<in> set (acc_failed_indices acc))"
    and "\<forall>k \<in> set (acc_failed_indices acc). k < i + j"
    and "\<forall>r \<in> set rs. success r \<longrightarrow> embedding r \<noteq> None"
  shows "length (acc_embeddings (collect_results i j rs acc)) = i + j + length rs
         \<and> (\<forall>k < i + j + length rs.
               (acc_embeddings (collect_results i j rs acc) ! k = None)
                 = (k \<in> set (acc_failed_indices (collect_results i j rs acc))))
         \<and> (\<forall>k \<in> set (acc_failed_indices (collect_results i j rs acc)). k < i + j + length rs)"
  using assms
proof (induction rs arbitrary: j acc)
  case Nil
  then show ?case by simp
next
  case (Cons r rs)
  let ?acc = "(if success r
        then acc\<lparr> acc_embeddings := acc_embeddings acc @ [embedding r],
                  acc_quality_scores := acc_quality_scores acc @ [quality_score r] \<rparr>
        else acc\<lparr> acc_failed_indices := acc_failed_indices acc @ [i + j],
                  acc_errors := acc_errors acc @ [error r],
                  acc_embeddings := acc_embeddings acc @ [None],
                  acc_quality_scores := acc_quality_scores acc @ [Some 0.0] \<rparr>)"
  have a1: "length (acc_embeddings ?acc) = i + Suc j"
    using Cons.prems(1) by simp
  have a2: "\<forall>k < i + Suc j. (acc_embeddings ?acc ! k = None) = (k \<in> set (acc_failed_indices ?acc))"
  proof (intro allI impI)
    fix k assume k: "k < i + Suc j"
    show "(acc_embeddings ?acc ! k = None) = (k \<in> set (acc_failed_indices ?acc))"
    proof (cases "k < i + j")
      case True
      then have "k \<noteq> i + j" by simp
      then show ?thesis using True Cons.prems(1,2) by (simp add: nth_append)
    next
      case False
      then have e: "k = i + j" using k by simp
      have nf: "i + j \<notin> set (acc_failed_indices acc)" using Cons.prems(3) by auto
      show ?thesis
      proof (cases "success r")
        case True
        then have "embedding r \<noteq> None" using Cons.prems(4) by simp
        then show ?thesis using True e nf Cons.prems(1) by (simp add: nth_append)
      next
        case False
        then show ?thesis using e Cons.prems(1) by (simp add: nth_append)
      qed
    qed
  qed
  have a3: "\<forall>k \<in> set (acc_failed_indices ?acc). k < i + Suc j"
    using Cons.prems(3) by auto
  have a4: "\<forall>r \<in> set rs. success r \<longrightarrow> embedding r \<noteq> None"
    using Cons.prems(4) by simp
  have "collect_results i j (r # rs) acc = collect_results i (Suc j) rs ?acc" by simp
  then show ?case using Cons.IH[OF a1 a2 a3 a4] by simp
qed

lemma batch_loop_inv:
  assumes "\<And>k r. cache s k = Some r \<Longrightarrow> success r \<Longrightarrow> embedding r \<noteq> None"
    and "batch_loop w texts model bs cx uc mw i acc s = (Inr acc', s')"
    and "length (acc_embeddings acc) = min i (length texts)"
    and "\<forall>k < min i (length texts).
           (acc_embeddings acc ! k = None) = (k \<in> set (acc_failed_indices acc))"
    and "\<forall>k \<in> set (acc_failed_indices acc). k < min i (length texts)"
    and "0 < bs"
  shows "length (acc_embeddings acc') = length texts
         \<and> (\<forall>k < length texts.
               (acc_embeddings acc' ! k = None) = (k \<in> set (acc_failed_indices acc')))"
  using assms
proof (induction w texts model bs cx uc mw i acc s rule: batch_loop.induct)
  case (1 w texts model bs cx uc mw i acc s)
  show ?case
  proof (cases "i < length texts")
    case False
    then have "batch_loop w texts model bs cx uc mw i acc s = (Inr acc, s)"
      using batch_loop.simps[of w texts model bs cx uc mw i acc s] by simp
    then have "acc' = acc" using "1.prems"(2) by simp
    moreover have "min i (length texts) = length texts" using False by simp
    ultimately show ?thesis using "1.prems"(3,4) by simp
  next
    case True
    let ?bt = "take bs (drop i texts)"
    let ?bc = "slice_context cx i bs"
    have cond: "i < length texts \<and> 0 < bs" using True "1.prems"(6) by simp
    obtain br s1 where pb: "process_batch w (schedule w i) ?bt model ?bc uc mw s = (Inr br, s1)"
      and rec: "batch_loop w texts model bs cx uc mw (i + bs) (collect_results i 0 br acc) s1
                  = (Inr acc', s')"
    proof -
      obtain x s1 where p: "process_batch w (schedule w i) ?bt model ?bc uc mw s = (x, s1)"
        by (cases "process_batch w (schedule w i) ?bt model ?bc uc mw s") blast
      show ?thesis
      proof (cases x)
        case (Inl err)
        then have "batch_loop w texts model bs cx uc mw i acc s = (Inl err, s1)"
          using batch_loop.simps[of w texts model bs cx uc mw i acc s] cond p
          by (simp add: Let_def)
        then show ?thesis using "1.prems"(2) by simp
      next
        case (Inr br)
        then have "batch_loop w texts model bs cx uc mw i acc s
                     = batch_loop w texts model bs cx uc mw (i + bs)
                         (collect_results i 0 br acc) s1"
          using batch_loop.simps[of w texts model bs cx uc mw i acc s] cond p
          by (simp add: Let_def)
        then show ?thesis using that[of br s1] p Inr "1.prems"(2) by simp
      qed
    qed
    have pg: "(\<forall>r \<in> set br. success r \<longrightarrow> embedding r \<noteq> None)
         \<and> length br = length ?bt
         \<and> (\<forall>k r. cache s1 k = Some r \<longrightarrow> success r \<longrightarrow> embedding r \<noteq> None)"
      using process_batch_good[OF "1.prems"(1) pb] .
    have mi: "min i (length texts) = i" using True by simp
    have lbt: "length ?bt = min bs (length texts - i)" by simp
    have ci: "length (acc_embeddings (collect_results i 0 br acc)) = i + 0 + length br
         \<and> (\<forall>k < i + 0 + length br.
               (acc_embeddings (collect_results i 0 br acc) ! k = None)
                 = (k \<in> set (acc_failed_indices (collect_results i 0 br acc))))
         \<and> (\<forall>k \<in> set (acc_failed_indices (collect_results i 0 br acc)). k < i + 0 + length br)"
      using collect_results_inv[of acc i 0 br] "1.prems"(3,4,5) pg mi by simp
    have n: "i + 0 + length br = min (i + bs) (length texts)"
      using pg lbt True by (auto simp: min_def)
    have c1: "\<And>k r. cache s1 k = Some r \<Longrightarrow> success r \<Longrightarrow> embedding r \<noteq> None"
      using pg by blast
    show ?thesis
      using "1.IH"[OF cond refl refl pb[symmetric] refl c1 rec _ _ _ "1.prems"(6)] ci n
      by simp
  qed
qed

lemma batch_bookkeeping:
  assumes "\<And>k r. cache s k = Some r \<Longrightarrow> success r \<Longrightarrow> embedding r \<noteq> None"
    and "0 < effective_batch_size bsa (config_batch_size w)"
    and "b_embeddings (fst (generate_batch_embeddings w texts model bsa cx uc mw s)) = Some es"
    and "b_failed_indices (fst (generate_batch_embeddings w texts model bsa cx uc mw s)) = Some fi"
  shows "length es = length texts \<and> (\<forall>k < length texts. (es ! k = None) = (k \<in> set fi))"
proof -
  let ?bs = "effective_batch_size bsa (config_batch_size w)"
  let ?acc0 = "\<lparr> acc_embeddings = [], acc_failed_indices = [],
                      acc_quality_scores = [], acc_errors = [] \<rparr>"
  have ne: "texts \<noteq> []"
    using assms(3)
    by (auto simp: generate_batch_embeddings_def generate_batch_embeddings_body_def
        empty_batch_result_def)
  obtain x s1 where l: "batch_loop w texts model (nat ?bs) cx uc mw 0 ?acc0 s = (x, s1)"
    by (cases "batch_loop w texts model (nat ?bs) cx uc mw 0 ?acc0 s") blast
  show ?thesis
  proof (cases x)
    case (Inl err)
    then show ?thesis
      using assms(2,3) ne l
      by (simp add: generate_batch_embeddings_def generate_batch_embeddings_body_def
          empty_batch_result_def Let_def)
  next
    case (Inr acc)
    have inv: "length (acc_embeddings acc) = length texts
         \<and> (\<forall>k < length texts.
               (acc_embeddings acc ! k = None) = (k \<in> set (acc_failed_indices acc)))"
      using batch_loop_inv[OF assms(1) l[unfolded Inr], of ] assms(2) by simp
    show ?thesis
    proof (cases "average_quality_of (acc_quality_scores acc)")
      case (Inl err)
      then show ?thesis
        using assms(2,3) ne l Inr
        by (simp add: generate_batch_embeddings_def generate_batch_embeddings_body_def
            empty_batch_result_def Let_def)
    next
      case (Inr avg)
      then have "es = acc_embeddings acc \<and> fi = acc_failed_indices acc"
        using assms(2,3,4) ne l \<open>x = Inr acc\<close>
        by (simp add: generate_batch_embeddings_def generate_batch_embeddings_body_def Let_def)
      then show ?thesis using inv by simp
    qed
  qed
qed

section \<open>Properties of the similarity function\<close>

text \<open>
  C2, as amended. For every pair of vectors and every method other than \<^verbatim>\<open>cosine\<close>,
  \<^verbatim>\<open>euclidean\<close> and \<^verbatim>\<open>dot\<close>, \<^verbatim>\<open>calculate_similarity\<close> does not raise: it logs one
  error line naming the method and returns 0.0.
\<close>

theorem unknown_method_returns_zero:
  "method \<noteq> ''cosine'' \<and> method \<noteq> ''euclidean'' \<and> method \<noteq> ''dot''
   \<longrightarrow> calculate_similarity embedding1 embedding2 method
         = (0, [''Error calculating similarity: Unsupported similarity method: '' @ method])"
  by (simp add: calculate_similarity_def calculate_similarity_body_def)

text \<open>The method \<^verbatim>\<open>manhattan\<close>.\<close>

theorem unknown_method_returns_zero_witness:
  "''manhattan'' \<noteq> ''cosine'' \<and> ''manhattan'' \<noteq> ''euclidean'' \<and> ''manhattan'' \<noteq> ''dot''
   \<and> calculate_similarity [1, 2] [3, 4] ''manhattan''
       = (0, [''Error calculating similarity: Unsupported similarity method: manhattan''])"
  using unknown_method_returns_zero[of "''manhattan''" "[1, 2]" "[3, 4]"] by simp

text \<open>
  For two orthogonal vectors the unknown method \<^verbatim>\<open>manhattan\<close> and the dot product return
  the same value 0: the value returned for the unknown method is a genuine similarity score.
\<close>

theorem unknown_method_counterexample:
  "fst (calculate_similarity [1, 0] [0, 1] ''manhattan'') = 0
   \<and> fst (calculate_similarity [1, 0] [0, 1] ''dot'') = 0"
  by (simp add: calculate_similarity_def calculate_similarity_body_def np_dot_def dot_def)

section \<open>Properties of the migrator\<close>

text \<open>The token reader inverts the encoder on a complete document.\<close>

lemma sample_json_round_trip: "json_load (fst (iterencode sample_json)) = Inr sample_json"
  by (simp add: sample_json_def json_load_def parse_step_def start_value_def complete_value_def close_list_def close_dict_def)

lemma process_record_frame:
  "progress (snd (process_record w dt ck rk imp doc m)) = progress m
   \<and> batch_trace (snd (process_record w dt ck rk imp doc m)) = batch_trace m
   \<and> config (snd (process_record w dt ck rk imp doc m)) = config m
   \<and> checkpoint_file (snd (process_record w dt ck rk imp doc m)) = checkpoint_file m
   \<and> should_pause (snd (process_record w dt ck rk imp doc m)) = should_pause m"
  by (simp add: process_record_def Let_def split: sum.splits prod.splits option.splits)

lemma process_records_frame:
  "progress (snd (process_records w dt ck rk imp batch m)) = progress m
   \<and> batch_trace (snd (process_records w dt ck rk imp batch m)) = batch_trace m
   \<and> config (snd (process_records w dt ck rk imp batch m)) = config m
   \<and> checkpoint_file (snd (process_records w dt ck rk imp batch m)) = checkpoint_file m
   \<and> should_pause (snd (process_records w dt ck rk imp batch m)) = should_pause m"
proof (induction batch arbitrary: m)
  case Nil
  then show ?case by simp
next
  case (Cons doc batch)
  obtain r m1 where a: "process_record w dt ck rk imp doc m = (r, m1)"
    by (cases "process_record w dt ck rk imp doc m") blast
  obtain rs m2 where b: "process_records w dt ck rk imp batch m1 = (rs, m2)"
    by (cases "process_records w dt ck rk imp batch m1") blast
  have "snd (process_records w dt ck rk imp (doc # batch) m) = m2"
    using a b by simp
  moreover have "progress m1 = progress m \<and> batch_trace m1 = batch_trace m \<and> config m1 = config m
      \<and> checkpoint_file m1 = checkpoint_file m \<and> should_pause m1 = should_pause m"
    using process_record_frame[of w dt ck rk imp doc m] a by simp
  moreover have "progress m2 = progress m1 \<and> batch_trace m2 = batch_trace m1 \<and> config m2 = config m1
      \<and> checkpoint_file m2 = checkpoint_file m1 \<and> should_pause m2 = should_pause m1"
    using Cons.IH[of m1] b by simp
  ultimately show ?case by simp
qed

lemma process_records_Cons:
  "process_records w dt ck rk imp (doc # rest) m
     = (fst (process_record w dt ck rk imp doc m)
          # fst (process_records w dt ck rk imp rest (snd (process_record w dt ck rk imp doc m))),
        snd (process_records w dt ck rk imp rest (snd (process_record w dt ck rk imp doc m))))"
  by (simp split: prod.splits)

lemma process_records_length:
  "length (fst (process_records w dt ck rk imp batch m)) = length batch"
  by (induction batch arbitrary: m) (simp_all add: process_records_Cons del: process_records.simps(2))

lemma process_records_nth:
  "k < length batch \<Longrightarrow>
   fst (process_records w dt ck rk imp batch m) ! k
     = fst (process_record w dt ck rk imp (batch ! k)
              (snd (process_records w dt ck rk imp (take k batch) m)))"
proof (induction batch arbitrary: m k)
  case Nil
  then show ?case by simp
next
  case (Cons doc batch)
  show ?case
  proof (cases k)
    case 0
    then show ?thesis by (simp add: process_records_Cons del: process_records.simps(2))
  next
    case (Suc j)
    then have j: "j < length batch" using Cons.prems by simp
    show ?thesis using Cons.IH[OF j] Suc
      by (simp add: process_records_Cons del: process_records.simps(2))
  qed
qed

lemma chunk_sizes_step:
  assumes "0 < n" and "0 < b"
  shows "chunk_sizes n b = min b n # chunk_sizes (n - b) b"
proof (cases "b \<le> n")
  case True
  then have d: "n div b = Suc ((n - b) div b)"
    using assms(2) True by (simp add: le_div_geq)
  have m: "n mod b = (n - b) mod b"
    using True by (simp add: le_mod_geq)
  show ?thesis using True by (simp add: chunk_sizes_def d m)
next
  case False
  then show ?thesis using assms by (simp add: chunk_sizes_def)
qed

lemma chunk_sizes_0: "chunk_sizes 0 b = []"
  by (simp add: chunk_sizes_def)

lemma migrate_loop_counts:
  assumes "\<And>b m. progress (snd (f b m)) = progress m \<and> batch_trace (snd (f b m)) = batch_trace m"
    and "0 < bs"
  shows "processed_records (progress (snd (migrate_loop f data bs i sm m)))
           = processed_records (progress m) + int (length data - i)
         \<and> batch_trace (snd (migrate_loop f data bs i sm m))
           = batch_trace m @ chunk_sizes (length data - i) bs
         \<and> failed_records (progress (snd (migrate_loop f data bs i sm m)))
           = failed_records (progress m)
         \<and> errors (progress (snd (migrate_loop f data bs i sm m))) = errors (progress m)"
  using assms
proof (induction f data bs i sm m rule: migrate_loop.induct)
  case (1 f data bs i sm m)
  show ?case
  proof (cases "i < length data")
    case False
    then have "migrate_loop f data bs i sm m = (sm, m)"
      by (subst migrate_loop.simps) simp
    then show ?thesis using False by (simp add: chunk_sizes_0)
  next
    case True
    let ?batch = "take bs (drop i data)"
    obtain rs m1 where f: "f ?batch m = (rs, m1)" by (cases "f ?batch m") blast
    have fr: "progress m1 = progress m \<and> batch_trace m1 = batch_trace m"
      using "1.prems"(1)[of ?batch m] f by simp
    let ?sm = "sm + int (length (filter result_success rs))"
    let ?p = "(progress m1)\<lparr>processed_records := processed_records (progress m1) + int (length ?batch)\<rparr>"
    let ?p2 = "?p\<lparr>successful_records := successful_records ?p + ?sm\<rparr>"
    let ?m2 = "m1\<lparr>progress := ?p2, batch_trace := batch_trace m1 @ [length ?batch]\<rparr>"
    have unfold: "migrate_loop f data bs i sm m = migrate_loop f data bs (i + bs) ?sm ?m2"
      using True "1.prems"(2) f by (subst migrate_loop.simps) (simp add: Let_def)
    have ih: "processed_records (progress (snd (migrate_loop f data bs (i + bs) ?sm ?m2)))
           = processed_records (progress ?m2) + int (length data - (i + bs))
         \<and> batch_trace (snd (migrate_loop f data bs (i + bs) ?sm ?m2))
           = batch_trace ?m2 @ chunk_sizes (length data - (i + bs)) bs
         \<and> failed_records (progress (snd (migrate_loop f data bs (i + bs) ?sm ?m2)))
           = failed_records (progress ?m2)
         \<and> errors (progress (snd (migrate_loop f data bs (i + bs) ?sm ?m2))) = errors (progress ?m2)"
      using "1.IH"[OF _ refl f[symmetric] refl refl refl refl "1.prems"] True "1.prems"(2) by simp
    have len: "length ?batch = min bs (length data - i)" by simp
    have cs: "chunk_sizes (length data - i) bs
                = min bs (length data - i) # chunk_sizes (length data - (i + bs)) bs"
      using chunk_sizes_step[of "length data - i" bs] True "1.prems"(2) by simp
    have cnt: "int (min bs (length data - i)) + int (length data - (i + bs)) = int (length data - i)"
      using True by (simp add: min_def)
    show ?thesis
      unfolding unfold using ih fr cs cnt len by simp
  qed
qed

lemma ceil_div_nat:
  assumes "0 < (b::nat)"
  shows "(n + b - 1) div b = n div b + (if n mod b = 0 then 0 else 1)"
proof -
  let ?q = "n div b"
  let ?r = "n mod b"
  have n: "n = b * ?q + ?r" by simp
  have r: "?r < b" using assms by simp
  show ?thesis
  proof (cases "?r = 0")
    case True
    have "b * ?q \<le> n + b - 1" using n True assms by linarith
    moreover have "n + b - 1 < b * Suc ?q" using n True assms by (simp del: mult_Suc_right add: mult_Suc_right[of b ?q]) 
    ultimately have "(n + b - 1) div b = ?q" by (rule div_nat_eqI)
    then show ?thesis using True by simp
  next
    case False
    have "b * Suc ?q \<le> n + b - 1"
    proof -
      have "b * Suc ?q = b * ?q + b" by simp
      moreover have "n + b - 1 = b * ?q + ?r + b - 1" using n by simp
      ultimately show ?thesis using False by linarith
    qed
    moreover have "n + b - 1 < b * Suc (Suc ?q)"
    proof -
      have "b * Suc (Suc ?q) = b * ?q + b + b" by simp
      moreover have "n + b - 1 = b * ?q + ?r + b - 1" using n by simp
      ultimately show ?thesis using r by linarith
    qed
    ultimately have "(n + b - 1) div b = Suc ?q" by (rule div_nat_eqI)
    then show ?thesis using False by simp
  qed
qed

lemma sum_chunk_sizes: "sum_list (chunk_sizes n b) = n"
proof -
  have "sum_list (chunk_sizes n b) = n div b * b + n mod b"
    by (cases "n mod b = 0") (simp_all add: chunk_sizes_def sum_list_replicate)
  also have "\<dots> = n" by (rule div_mult_mod_eq)
  finally show ?thesis .
qed

lemma analytics_frame:
  "progress (snd (process_analytics_batch w b m)) = progress m
   \<and> batch_trace (snd (process_analytics_batch w b m)) = batch_trace m"
  using process_records_frame[of w "''analytics''" "''site_id''" "''siteId''" 7 b m]
  by (simp add: process_analytics_batch_def)

text \<open>
  Entering the context manager raises on every call, so the block inside a \<^verbatim>\<open>with\<close>
  statement never runs, and each of the three migration functions returns the failed result
  with the message of the \<^verbatim>\<open>NameError\<close>, leaving the migrator as it was.
\<close>

lemma with_LogContext_raises:
  "with_LogContext body s = (Inl ''name 'time' is not defined'', s)"
  by (simp add: with_LogContext_def LogContext_enter_def load_global_def logger_globals_def)

lemma migrate_source_fails:
  "migrate_source w collection filter_dict process_batch_fn batch_size_arg m
     = (\<lparr> m_success = False, m_progress = progress m,
          m_processing_time = run_t_end w - run_t_start w,
          m_metadata = [(''error'', PStr ''name 'time' is not defined'')] \<rparr>, m)"
  by (simp add: migrate_source_def migrate_source_body_def with_LogContext_raises Let_def)

text \<open>
  The block inside the \<^verbatim>\<open>with\<close> statement, taken alone, batches as the specification
  says: when the query returns N records and the batch size B is positive, it processes the
  batches of sizes \<^verbatim>\<open>chunk_sizes N B\<close> in this order, their number is ceil(N/B), their
  sizes add up to N, and \<^verbatim>\<open>progress.processed_records\<close> grows by N. For 23 records and
  batch size 10 these are the batches 10, 10, 3.
\<close>

lemma migrate_steps_batches:
  assumes "find_documents w ''analytics'' flt = Inr data"
    and "0 < bs"
  shows "processed_records (progress (snd (migrate_source_steps w ''analytics'' flt
             (process_analytics_batch w) bs m)))
           = processed_records (progress m) + int (length data)
         \<and> batch_trace (snd (migrate_source_steps w ''analytics'' flt
             (process_analytics_batch w) bs m))
           = batch_trace m @ chunk_sizes (length data) (nat bs)
         \<and> int (length (chunk_sizes (length data) (nat bs)))
           = (int (length data) + bs - 1) div bs
         \<and> sum_list (chunk_sizes (length data) (nat bs)) = length data"
proof -
  let ?b = "nat bs"
  have b: "0 < ?b" using assms(2) by simp
  have Bb: "bs = int ?b" using assms(2) by simp
  have len: "int (length (chunk_sizes (length data) ?b)) = (int (length data) + bs - 1) div bs"
  proof -
    have "length (chunk_sizes (length data) ?b) = (length data + ?b - 1) div ?b"
      using ceil_div_nat[OF b, of "length data"] by (simp add: chunk_sizes_def)
    then have "int (length (chunk_sizes (length data) ?b)) = int ((length data + ?b - 1) div ?b)"
      by simp
    also have "\<dots> = int (length data + ?b - 1) div int ?b"
      by (simp only: zdiv_int)
    also have "int (length data + ?b - 1) = int (length data) + int ?b - 1"
      using b by (simp add: of_nat_diff)
    finally show ?thesis using Bb by simp
  qed
  have total: "sum_list (chunk_sizes (length data) ?b) = length data"
    by (rule sum_chunk_sizes)
  show ?thesis
  proof (cases "data = []")
    case True
    then show ?thesis
      using assms len total
      by (simp add: migrate_source_steps_def Let_def chunk_sizes_def)
  next
    case False
    have loop: "processed_records (progress (snd (migrate_loop (process_analytics_batch w) data ?b 0 0 m)))
           = processed_records (progress m) + int (length data - 0)
         \<and> batch_trace (snd (migrate_loop (process_analytics_batch w) data ?b 0 0 m))
           = batch_trace m @ chunk_sizes (length data - 0) ?b
         \<and> failed_records (progress (snd (migrate_loop (process_analytics_batch w) data ?b 0 0 m)))
           = failed_records (progress m)
         \<and> errors (progress (snd (migrate_loop (process_analytics_batch w) data ?b 0 0 m)))
           = errors (progress m)"
      by (rule migrate_loop_counts[OF analytics_frame b])
    show ?thesis
      using assms False loop len total
      by (simp add: migrate_source_steps_def Let_def case_prod_beta)
  qed
qed

lemma chunk_sizes_23_10: "chunk_sizes 23 10 = [10, 10, 3]"
proof -
  have "(23::nat) div 10 = 2" "(23::nat) mod 10 = 3" by simp_all
  moreover have "replicate 2 (10::nat) = [10, 10]" by (simp add: numeral_2_eq_2)
  ultimately show ?thesis by (simp add: chunk_sizes_def)
qed

lemma steps_23_10:
  "processed_records (progress (snd (migrate_source_steps many_records_world ''analytics''
       (empty_filter\<lparr>siteId_in := ids_filter None\<rparr>)
       (process_analytics_batch many_records_world) 10 (new_migrator test_config)))) = 23
   \<and> batch_trace (snd (migrate_source_steps many_records_world ''analytics''
       (empty_filter\<lparr>siteId_in := ids_filter None\<rparr>)
       (process_analytics_batch many_records_world) 10 (new_migrator test_config))) = [10, 10, 3]"
proof -
  have h1: "find_documents many_records_world ''analytics''
              (empty_filter\<lparr>siteId_in := ids_filter None\<rparr>) = Inr (replicate 23 sample_record)"
    by (simp add: many_records_world_def api_down_world_def)
  have h2: "0 < (10::int)" by simp
  have p: "processed_records (progress (new_migrator test_config)) = 0"
    "batch_trace (new_migrator test_config) = []"
    by (simp_all add: new_migrator_def empty_progress_def)
  have l: "length (replicate 23 sample_record) = 23" by simp
  have n: "nat 10 = 10" by simp
  note t = migrate_steps_batches[OF h1 h2, of "new_migrator test_config",
      unfolded p l n chunk_sizes_23_10]
  from t have a: "processed_records (progress (snd (migrate_source_steps many_records_world
       ''analytics'' (empty_filter\<lparr>siteId_in := ids_filter None\<rparr>)
       (process_analytics_batch many_records_world) 10 (new_migrator test_config)))) = 0 + int 23"
    by (rule conjunct1)
  from t have b: "batch_trace (snd (migrate_source_steps many_records_world ''analytics''
       (empty_filter\<lparr>siteId_in := ids_filter None\<rparr>)
       (process_analytics_batch many_records_world) 10 (new_migrator test_config)))
       = [] @ [10, 10, 3]" by (rule conjunct1[OF conjunct2])
  show ?thesis using a b by simp
qed

text \<open>
  C7 at a failing input. The store holds 23 analytics records and
  \<^verbatim>\<open>migrate_analytics_data\<close> is called with batch size 10 on a new migrator. The call
  returns \<^verbatim>\<open>success = False\<close> with the message of the \<^verbatim>\<open>NameError\<close> raised on entering
  \<^verbatim>\<open>LogContext\<close>; no batch is processed, no vector document is written, and
  \<^verbatim>\<open>processed_records\<close> is still 0, where the claim requires the batches 10, 10, 3 and
  23 processed records.
\<close>

theorem migrate_analytics_no_batches:
  "find_documents many_records_world ''analytics'' (empty_filter\<lparr>siteId_in := ids_filter None\<rparr>)
     = Inr (replicate 23 sample_record)
   \<and> effective_batch_size (Some 10) (batch_size (config (new_migrator test_config))) = 10
   \<and> m_success (fst (migrate_analytics_data many_records_world None (Some 10)
         (new_migrator test_config))) = False
   \<and> m_metadata (fst (migrate_analytics_data many_records_world None (Some 10)
         (new_migrator test_config))) = [(''error'', PStr ''name 'time' is not defined'')]
   \<and> processed_records (progress (snd (migrate_analytics_data many_records_world None (Some 10)
         (new_migrator test_config)))) = 0
   \<and> processed_records (m_progress (fst (migrate_analytics_data many_records_world None (Some 10)
         (new_migrator test_config)))) = 0
   \<and> batch_trace (snd (migrate_analytics_data many_records_world None (Some 10)
         (new_migrator test_config))) = []
   \<and> vectordocuments (snd (migrate_analytics_data many_records_world None (Some 10)
         (new_migrator test_config))) = []"
  by (simp add: migrate_analytics_data_def migrate_source_def migrate_source_body_def
      with_LogContext_def LogContext_enter_def load_global_def logger_globals_def
      many_records_world_def api_down_world_def effective_batch_size_def
      new_migrator_def empty_progress_def test_config_def Let_def)

text \<open>
  The counter of successful records: with two batches of one record each, both successful,
  the loop adds 1 after the first batch and the running total 2 after the second, 3 in all.
\<close>

lemma successful_records_overcount:
  assumes "\<And>b m. progress (snd (f b m)) = progress m"
    and "\<And>b m. length (filter result_success (fst (f b m))) = length b"
  shows "successful_records (progress (snd (migrate_loop f [d1, d2] (Suc 0) 0 0 m)))
           = successful_records (progress m) + 3"
proof -
  obtain r1 m1 where f1: "f [d1] m = (r1, m1)" by (cases "f [d1] m") blast
  have p1: "progress m1 = progress m" using assms(1)[of "[d1]" m] f1 by simp
  have s1: "length (filter result_success r1) = 1" using assms(2)[of "[d1]" m] f1 by simp
  let ?m1 = "m1\<lparr>progress := (progress m1)\<lparr>processed_records := processed_records (progress m1) + 1,
                                             successful_records := successful_records (progress m1) + 1\<rparr>,
                batch_trace := batch_trace m1 @ [Suc 0]\<rparr>"
  obtain r2 m2 where f2: "f [d2] ?m1 = (r2, m2)" by (cases "f [d2] ?m1") blast
  have p2: "progress m2 = progress ?m1" using assms(1)[of "[d2]" ?m1] f2 by simp
  have s2: "length (filter result_success r2) = 1" using assms(2)[of "[d2]" ?m1] f2 by simp
  have step1: "migrate_loop f [d1, d2] (Suc 0) 0 0 m = migrate_loop f [d1, d2] (Suc 0) (Suc 0) 1 ?m1"
    using f1 s1 by (subst migrate_loop.simps) (simp add: Let_def)
  let ?m2 = "m2\<lparr>progress := (progress m2)\<lparr>processed_records := processed_records (progress m2) + 1,
                                             successful_records := successful_records (progress m2) + 2\<rparr>,
                batch_trace := batch_trace m2 @ [Suc 0]\<rparr>"
  have step2: "migrate_loop f [d1, d2] (Suc 0) (Suc 0) 1 ?m1 = migrate_loop f [d1, d2] (Suc 0) (Suc (Suc 0)) 2 ?m2"
    using f2 s2 by (subst migrate_loop.simps) (simp add: Let_def)
  have step3: "migrate_loop f [d1, d2] (Suc 0) (Suc (Suc 0)) 2 ?m2 = (2, ?m2)"
    by (subst migrate_loop.simps) simp
  show ?thesis unfolding step1 step2 step3 using p1 p2 by simp
qed

lemma process_record_failed:
  assumes "extract_content w dt doc = Inr content"
    and "\<not> success (fst (generate_embedding (gen_world w) content (embedding_model (config m))
             (Some [(''data_type'', PStr dt), (''source_type'', PStr dt),
                    (ck, dict_get doc rk), (''importance'', PInt imp)])
             True (embedding_generator m)))"
  shows "fst (process_record w dt ck rk imp doc m)
           = RecordFailed (error (fst (generate_embedding (gen_world w) content
                (embedding_model (config m))
                (Some [(''data_type'', PStr dt), (''source_type'', PStr dt),
                       (ck, dict_get doc rk), (''importance'', PInt imp)])
                True (embedding_generator m))))"
  using assms by (simp add: process_record_def Let_def case_prod_beta)

text \<open>
  C4, as amended. A batch yields one result entry per record, in record order; the k-th entry
  is the outcome of the k-th record in the state the records before it left, so a record that
  fails does not stop the records after it. A record whose embedding generation fails yields
  a failed entry carrying that record's error text. The batch changes nothing in
  \<^verbatim>\<open>progress\<close>: neither \<^verbatim>\<open>failed_records\<close> nor \<^verbatim>\<open>errors\<close>.
\<close>

theorem failed_record_isolated:
  "length (fst (process_analytics_batch w batch m)) = length batch
   \<and> (k < length batch \<longrightarrow>
        fst (process_analytics_batch w batch m) ! k
          = fst (process_record w ''analytics'' ''site_id'' ''siteId'' 7 (batch ! k)
                   (snd (process_analytics_batch w (take k batch) m))))
   \<and> (extract_content w ''analytics'' doc = Inr content
        \<and> \<not> success (fst (generate_embedding (gen_world w) content (embedding_model (config m))
               (Some [(''data_type'', PStr ''analytics''), (''source_type'', PStr ''analytics''),
                      (''site_id'', dict_get doc ''siteId''), (''importance'', PInt 7)])
               True (embedding_generator m)))
      \<longrightarrow> fst (process_record w ''analytics'' ''site_id'' ''siteId'' 7 doc m)
            = RecordFailed (error (fst (generate_embedding (gen_world w) content
                (embedding_model (config m))
                (Some [(''data_type'', PStr ''analytics''), (''source_type'', PStr ''analytics''),
                       (''site_id'', dict_get doc ''siteId''), (''importance'', PInt 7)])
                True (embedding_generator m)))))
   \<and> progress (snd (process_analytics_batch w batch m)) = progress m"
proof (intro conjI impI)
  show "length (fst (process_analytics_batch w batch m)) = length batch"
    by (simp add: process_analytics_batch_def process_records_length)
  show "progress (snd (process_analytics_batch w batch m)) = progress m"
    using analytics_frame by simp
next
  assume "k < length batch"
  then show "fst (process_analytics_batch w batch m) ! k
          = fst (process_record w ''analytics'' ''site_id'' ''siteId'' 7 (batch ! k)
                   (snd (process_analytics_batch w (take k batch) m)))"
    by (simp add: process_analytics_batch_def process_records_nth)
next
  assume a: "extract_content w ''analytics'' doc = Inr content
        \<and> \<not> success (fst (generate_embedding (gen_world w) content (embedding_model (config m))
               (Some [(''data_type'', PStr ''analytics''), (''source_type'', PStr ''analytics''),
                      (''site_id'', dict_get doc ''siteId''), (''importance'', PInt 7)])
               True (embedding_generator m)))"
  show "fst (process_record w ''analytics'' ''site_id'' ''siteId'' 7 doc m)
            = RecordFailed (error (fst (generate_embedding (gen_world w) content
                (embedding_model (config m))
                (Some [(''data_type'', PStr ''analytics''), (''source_type'', PStr ''analytics''),
                       (''site_id'', dict_get doc ''siteId''), (''importance'', PInt 7)])
                True (embedding_generator m))))"
    using process_record_failed[of w "''analytics''" doc content m "''site_id''" "''siteId''" 7] a
    by simp
qed

lemma gen_down:
  "cache s (generate_cache_key world_down text GEMINI) = None \<Longrightarrow>
   generate_embedding world_down text GEMINI ctx True s
     = (failed_result ''API Error'' (Some 1), s\<lparr>n_calls := Suc (n_calls s)\<rparr>)"
  by (simp add: generate_embedding_def generate_embedding_body_def get_cached_embedding_def
      provider_dispatch_def world_down_def world_fail_then_ok_def env_fail_def Let_def)

lemma gen_flaky_first:
  "generate_embedding world_fail_then_ok text GEMINI ctx True gen_init
     = (failed_result ''API Error'' (Some 1), gen_init\<lparr>n_calls := Suc 0\<rparr>)"
  by (simp add: generate_embedding_def generate_embedding_body_def get_cached_embedding_def
      provider_dispatch_def world_fail_then_ok_def env_fail_def gen_init_def Let_def)

lemma gen_flaky_second:
  "success (fst (generate_embedding world_fail_then_ok text GEMINI ctx True
       (gen_init\<lparr>n_calls := Suc 0\<rparr>)))
   \<and> embedding (fst (generate_embedding world_fail_then_ok text GEMINI ctx True
       (gen_init\<lparr>n_calls := Suc 0\<rparr>))) = Some [Fin (1 / 2), Fin (- (1 / 2))]
   \<and> metadata (fst (generate_embedding world_fail_then_ok text GEMINI ctx True
       (gen_init\<lparr>n_calls := Suc 0\<rparr>)))
       = Some [(''text_length'', PInt (int (length text))),
               (''processed_text_length'', PInt (int (length (preprocess_text text ctx)))),
               (''context'', context_val ctx)]"
  by (simp add: generate_embedding_def generate_embedding_body_def get_cached_embedding_def
      cache_embedding_def provider_dispatch_def world_fail_then_ok_def env_ok_def gen_init_def
      Let_def)

lemma api_down_sel:
  "gen_world api_down_world = world_down"
  "extract_content api_down_world dt d = Inr sample_content"
  "find_documents api_down_world ''analytics'' f = Inr [sample_record]"
  by (simp_all add: api_down_world_def)

lemma flaky_sel:
  "gen_world flaky_world = world_fail_then_ok"
  "extract_content flaky_world dt d = Inr sample_content"
  "insert_vector_document flaky_world vd = None"
  by (simp_all add: flaky_world_def api_down_world_def)

lemma new_migrator_sel:
  "embedding_generator (new_migrator c) = gen_init"
  "config (new_migrator c) = c"
  "progress (new_migrator c) = empty_progress"
  "should_pause (new_migrator c) = False"
  "checkpoint_file (new_migrator c) = None"
  by (simp_all add: new_migrator_def)

lemma api_down_record:
  "fst (process_record api_down_world ''analytics'' ''site_id'' ''siteId'' 7 sample_record
          (new_migrator test_config)) = RecordFailed (Some ''API Error'')"
  by (simp add: process_record_def api_down_sel new_migrator_sel gen_down gen_init_def
      test_config_def Let_def)

lemma flaky_first_record:
  "process_record flaky_world ''analytics'' ''site_id'' ''siteId'' 7 sample_record
          (new_migrator test_config)
     = (RecordFailed (Some ''API Error''),
        (new_migrator test_config)\<lparr>embedding_generator := gen_init\<lparr>n_calls := Suc 0\<rparr>\<rparr>)"
  by (simp add: process_record_def flaky_sel new_migrator_sel gen_flaky_first
      test_config_def Let_def)

lemma flaky_second_record:
  "fst (process_record flaky_world ''analytics'' ''site_id'' ''siteId'' 7 second_record
          ((new_migrator test_config)\<lparr>embedding_generator := gen_init\<lparr>n_calls := Suc 0\<rparr>\<rparr>))
     = RecordOk (PStr ''r2'')"
proof -
  let ?ctx = "Some [(''data_type'', PStr ''analytics''), (''source_type'', PStr ''analytics''),
                  (''site_id'', dict_get second_record ''siteId''), (''importance'', PInt 7)]"
  obtain r g where g: "generate_embedding world_fail_then_ok sample_content GEMINI ?ctx True
       (gen_init\<lparr>n_calls := Suc 0\<rparr>) = (r, g)"
    by (cases "generate_embedding world_fail_then_ok sample_content GEMINI ?ctx True
       (gen_init\<lparr>n_calls := Suc 0\<rparr>)") blast
  have r: "success r" "embedding r = Some [Fin (1 / 2), Fin (- (1 / 2))]" "metadata r \<noteq> None"
    using gen_flaky_second[of sample_content ?ctx] g by simp_all
  obtain md where md: "metadata r = Some md" using r(3) by blast
  have id: "dict_index second_record ''_id'' = Inr (PStr ''r2'')"
    "dict_get second_record ''_id'' = PStr ''r2''"
    by (simp_all add: dict_index_def dict_get_def second_record_def)
  show ?thesis
    using g r(1,2) md id
    by (simp add: process_record_def flaky_sel new_migrator_def test_config_def
        create_vector_document_def Let_def)
qed

text \<open>
  A batch of one analytics record whose embedding generation fails: the batch reports the
  failure with its error text, and after the batch \<^verbatim>\<open>failed_records\<close> is still 0 and
  \<^verbatim>\<open>errors\<close> is still empty.
\<close>

theorem failed_record_not_counted:
  "fst (process_analytics_batch api_down_world [sample_record] (new_migrator test_config))
     = [RecordFailed (Some ''API Error'')]
   \<and> failed_records (progress (new_migrator test_config)) = 0
   \<and> errors (progress (new_migrator test_config)) = []
   \<and> failed_records (progress (snd (process_analytics_batch api_down_world [sample_record]
         (new_migrator test_config)))) = 0
   \<and> errors (progress (snd (process_analytics_batch api_down_world [sample_record]
         (new_migrator test_config)))) = []"
proof -
  have "fst (process_analytics_batch api_down_world [sample_record] (new_migrator test_config))
     = [RecordFailed (Some ''API Error'')]"
    using api_down_record by (simp add: process_analytics_batch_def case_prod_beta)
  moreover have "failed_records (progress (new_migrator test_config)) = 0"
    "errors (progress (new_migrator test_config)) = []"
    by (simp_all add: new_migrator_sel empty_progress_def)
  moreover have "progress (snd (process_analytics_batch api_down_world [sample_record]
         (new_migrator test_config))) = progress (new_migrator test_config)"
    using analytics_frame by simp
  ultimately show ?thesis by simp
qed

text \<open>
  A batch of two records, the provider raising during the first call and answering during
  the second: the first entry is the failure with its error text, the second record is
  migrated, and the progress is untouched.
\<close>

theorem failed_record_isolated_witness:
  "Suc 0 < length [sample_record, second_record]
   \<and> extract_content flaky_world ''analytics'' sample_record = Inr sample_content
   \<and> \<not> success (fst (generate_embedding (gen_world flaky_world) sample_content
           (embedding_model (config (new_migrator test_config)))
           (Some [(''data_type'', PStr ''analytics''), (''source_type'', PStr ''analytics''),
                  (''site_id'', dict_get sample_record ''siteId''), (''importance'', PInt 7)])
           True (embedding_generator (new_migrator test_config))))
   \<and> length (fst (process_analytics_batch flaky_world [sample_record, second_record]
         (new_migrator test_config))) = 2
   \<and> fst (process_record flaky_world ''analytics'' ''site_id'' ''siteId'' 7 sample_record
            (new_migrator test_config)) = RecordFailed (Some ''API Error'')
   \<and> fst (process_analytics_batch flaky_world [sample_record, second_record]
         (new_migrator test_config)) ! 0 = RecordFailed (Some ''API Error'')
   \<and> fst (process_analytics_batch flaky_world [sample_record, second_record]
         (new_migrator test_config)) ! Suc 0 = RecordOk (PStr ''r2'')
   \<and> progress (snd (process_analytics_batch flaky_world [sample_record, second_record]
         (new_migrator test_config))) = empty_progress"
proof -
  let ?m = "new_migrator test_config"
  let ?b = "[sample_record, second_record]"
  let ?ctx = "Some [(''data_type'', PStr ''analytics''), (''source_type'', PStr ''analytics''),
                  (''site_id'', dict_get sample_record ''siteId''), (''importance'', PInt 7)]"
  have g: "generate_embedding (gen_world flaky_world) sample_content
             (embedding_model (config ?m)) ?ctx True (embedding_generator ?m)
           = (failed_result ''API Error'' (Some 1), gen_init\<lparr>n_calls := Suc 0\<rparr>)"
    by (simp add: flaky_sel new_migrator_sel gen_flaky_first test_config_def)
  have h0: "Suc 0 < length ?b" "0 < length ?b" by simp_all
  have h1: "extract_content flaky_world ''analytics'' sample_record = Inr sample_content"
    by (simp add: flaky_sel)
  have h2: "\<not> success (fst (generate_embedding (gen_world flaky_world) sample_content
             (embedding_model (config ?m)) ?ctx True (embedding_generator ?m)))"
    by (simp add: g)
  have e: "error (fst (generate_embedding (gen_world flaky_world) sample_content
             (embedding_model (config ?m)) ?ctx True (embedding_generator ?m))) = Some ''API Error''"
    by (simp add: g)
  have t: "take 0 ?b = []" "?b ! 0 = sample_record"
    "take (Suc 0) ?b = [sample_record]" "?b ! Suc 0 = second_record" by simp_all
  have p0: "snd (process_analytics_batch flaky_world [] ?m) = ?m"
    by (simp add: process_analytics_batch_def)
  have p1: "snd (process_analytics_batch flaky_world [sample_record] ?m)
              = ?m\<lparr>embedding_generator := gen_init\<lparr>n_calls := Suc 0\<rparr>\<rparr>"
    by (simp add: process_analytics_batch_def flaky_first_record)
  note i0 = failed_record_isolated[of flaky_world ?b ?m 0 sample_record sample_content]
  note i1 = failed_record_isolated[of flaky_world ?b ?m "Suc 0" sample_record sample_content]
  have len: "length (fst (process_analytics_batch flaky_world ?b ?m)) = 2"
    using i0 by simp
  have a: "fst (process_record flaky_world ''analytics'' ''site_id'' ''siteId'' 7 sample_record ?m)
            = RecordFailed (Some ''API Error'')"
    using i0 h1 h2 e by simp
  have b: "fst (process_analytics_batch flaky_world ?b ?m) ! 0 = RecordFailed (Some ''API Error'')"
    using i0 h0(2) a by (simp add: t p0)
  have c: "fst (process_analytics_batch flaky_world ?b ?m) ! Suc 0 = RecordOk (PStr ''r2'')"
    using i1 h0(1) by (simp add: t p1 flaky_second_record)
  have d: "progress (snd (process_analytics_batch flaky_world ?b ?m)) = empty_progress"
    using i0 by (simp add: new_migrator_sel)
  show ?thesis using h0(1) h1 h2 len a b c d by blast
qed

lemma save_test_checkpoint:
  "checkpoint_file (save_checkpoint one_record_world saving_migrator) = Some truncated_checkpoint"
  by (simp add: save_checkpoint_def checkpoint_data_def progress_dict_def config_dict_def
      saving_migrator_def new_migrator_def test_config_def saved_progress_def empty_progress_def
      one_record_world_def api_down_world_def truncated_checkpoint_def source_name_def)

lemma load_truncated: "json_load truncated_checkpoint = Inl ''JSONDecodeError''"
  by (simp add: json_load_def truncated_checkpoint_def parse_step_def start_value_def
      complete_value_def close_list_def close_dict_def)

text \<open>
  C8 at a failing input. A migrator with the configuration of the repository's tests and
  progress total 100, processed 50, successful 45, source \<^verbatim>\<open>analytics\<close> saves its
  checkpoint: the encoder raises at the first member of \<^verbatim>\<open>DataSource\<close> and the file is
  left truncated in the middle of the configuration. A fresh migrator that loads this file
  keeps its initial progress, with 0 total records.
\<close>

theorem checkpoint_round_trip_fails:
  "checkpoint_file (save_checkpoint one_record_world saving_migrator) = Some truncated_checkpoint
   \<and> progress (load_checkpoint
         ((new_migrator test_config)
            \<lparr>checkpoint_file := checkpoint_file (save_checkpoint one_record_world saving_migrator)\<rparr>))
       = empty_progress
   \<and> total_records (progress saving_migrator) = 100
   \<and> total_records empty_progress = 0"
  unfolding save_test_checkpoint
  by (simp add: load_truncated load_checkpoint_def new_migrator_def
      saving_migrator_def saved_progress_def empty_progress_def)

text \<open>
  The loader itself restores the five fields from a complete file: here a file that holds the
  progress and the timestamp but no configuration.
\<close>

lemma well_formed_checkpoint_loads:
  "load_checkpoint
     (m\<lparr>checkpoint_file :=
          Some (fst (iterencode (PDict [(''progress'', PDict (progress_dict p)),
                                        (''timestamp'', PStr ts)])))\<rparr>)
   = m\<lparr>checkpoint_file :=
          Some (fst (iterencode (PDict [(''progress'', PDict (progress_dict p)),
                                        (''timestamp'', PStr ts)]))),
        progress := (progress m)\<lparr> total_records := total_records p,
                                  processed_records := processed_records p,
                                  successful_records := successful_records p,
                                  failed_records := failed_records p,
                                  current_source := current_source p \<rparr>\<rparr>"
  by (cases "current_source p")
    (simp_all add: load_checkpoint_def json_load_def parse_step_def start_value_def
      complete_value_def close_list_def close_dict_def progress_dict_def restore_progress_def
      subscript_def int_item_def source_item_def Let_def)

lemma save_checkpoint_frame:
  "should_pause (save_checkpoint w m) = should_pause m"
  "progress (save_checkpoint w m) = progress m"
  "config (save_checkpoint w m) = config m"
  "is_running (save_checkpoint w m) = is_running m"
  by (simp_all add: save_checkpoint_def)

lemma save_checkpoint_writes:
  "disk_writable w \<Longrightarrow> checkpoint_file (save_checkpoint w m) \<noteq> None"
  by (simp add: save_checkpoint_def)

text \<open>
  Every run of \<^verbatim>\<open>migrate_all_data\<close> fails on entering \<^verbatim>\<open>LogContext\<close>: it sets the start
  time, returns the failed result and clears \<^verbatim>\<open>is_running\<close>. It reads neither the pause
  flag nor the checkpoint and writes no checkpoint.
\<close>

lemma migrate_all_data_fails:
  "migrate_all_data w a m
     = (\<lparr> m_success = False,
          m_progress = (progress m)\<lparr>start_time := Some (now w)\<rparr>,
          m_processing_time = run_t_end w - run_t_start w,
          m_metadata = [(''error'', PStr ''name 'time' is not defined'')] \<rparr>,
        m\<lparr>is_running := False, progress := (progress m)\<lparr>start_time := Some (now w)\<rparr>\<rparr>)"
  by (simp add: migrate_all_data_def migrate_all_data_body_def with_LogContext_raises Let_def)

lemma paused_migrator_sel:
  "should_pause paused_migrator"
  "checkpoint_file paused_migrator = Some paused_checkpoint"
  "progress paused_migrator = empty_progress"
  "config paused_migrator = test_config"
  by (simp_all add: paused_migrator_def pause_migration_def save_checkpoint_def
      checkpoint_data_def progress_dict_def config_dict_def new_migrator_def test_config_def
      empty_progress_def one_record_world_def api_down_world_def paused_checkpoint_def
      source_name_def)

lemma load_paused_checkpoint: "json_load paused_checkpoint = Inl ''JSONDecodeError''"
  by (simp add: json_load_def paused_checkpoint_def parse_step_def start_value_def
      complete_value_def close_list_def close_dict_def)

text \<open>
  The block inside the \<^verbatim>\<open>with\<close> statement, taken alone: when the loop over the sources
  finds the pause flag set, it writes the checkpoint and stops, and the finalisation that
  follows the loop removes the file just written.
\<close>

lemma paused_loop_then_finalize:
  assumes "should_pause m" and "disk_writable w"
  shows "sources_loop w a (source # rest) m = (None, save_checkpoint w m)
         \<and> checkpoint_file (save_checkpoint w m) \<noteq> None
         \<and> checkpoint_file (finalize_migration w (save_checkpoint w m)) = None
         \<and> should_pause (finalize_migration w (save_checkpoint w m))"
  using assms by (simp add: save_checkpoint_def finalize_migration_def Let_def)

text \<open>
  C3 at a failing input. \<^verbatim>\<open>pause_migration\<close> is called on a new migrator with the
  configuration of the repository's tests, then \<^verbatim>\<open>migrate_all_data\<close> runs with the pause
  flag set. The file written by the pause request is truncated in the middle of the
  configuration (the encoder raises at the first member of \<^verbatim>\<open>DataSource\<close>) and cannot be
  loaded. The run does not stop at a source boundary: it returns \<^verbatim>\<open>success = False\<close>
  with the message of the \<^verbatim>\<open>NameError\<close> before any source is started, and it writes no
  checkpoint, so the file holds the truncated document and loading it restores nothing.
\<close>

theorem paused_run_fails:
  "should_pause paused_migrator
   \<and> checkpoint_file paused_migrator = Some paused_checkpoint
   \<and> json_load paused_checkpoint = Inl ''JSONDecodeError''
   \<and> m_success (fst (migrate_all_data one_record_world no_args paused_migrator)) = False
   \<and> m_metadata (fst (migrate_all_data one_record_world no_args paused_migrator))
       = [(''error'', PStr ''name 'time' is not defined'')]
   \<and> current_source (progress (snd (migrate_all_data one_record_world no_args paused_migrator)))
       = None
   \<and> checkpoint_file (snd (migrate_all_data one_record_world no_args paused_migrator))
       = Some paused_checkpoint
   \<and> is_running (snd (migrate_all_data one_record_world no_args paused_migrator)) = False
   \<and> progress (load_checkpoint (snd (migrate_all_data one_record_world no_args paused_migrator)))
       = progress (snd (migrate_all_data one_record_world no_args paused_migrator))"
proof -
  have run: "migrate_all_data one_record_world no_args paused_migrator
     = (\<lparr> m_success = False,
          m_progress = (progress paused_migrator)\<lparr>start_time := Some (now one_record_world)\<rparr>,
          m_processing_time = run_t_end one_record_world - run_t_start one_record_world,
          m_metadata = [(''error'', PStr ''name 'time' is not defined'')] \<rparr>,
        paused_migrator\<lparr>is_running := False,
          progress := (progress paused_migrator)\<lparr>start_time := Some (now one_record_world)\<rparr>\<rparr>)"
    by (simp add: migrate_all_data_def migrate_all_data_body_def with_LogContext_def
        LogContext_enter_def load_global_def logger_globals_def Let_def)
  show ?thesis
    unfolding run
    by (simp add: paused_migrator_sel load_paused_checkpoint load_checkpoint_def
        empty_progress_def)
qed

end
